theory Spec2Isabelle
  imports Main
begin

section \<open>JavaScript values the scraper relies on\<close>

text \<open>
  An environment variable and an optional string argument are \<open>string | undefined\<close>.
  JavaScript treats such a value as true exactly when it is defined and not the empty
  string (\<open>!!process.env.X\<close>, \<open>defaultScraper ? ... : ...\<close>, \<open>if (href)\<close>).
\<close>

definition truthy :: "string option \<Rightarrow> bool" where
  "truthy v = (case v of None \<Rightarrow> False | Some s \<Rightarrow> s \<noteq> [])"

text \<open>
  A JavaScript \<open>Set\<close> iterates in insertion order and ignores the insertion of a value
  it already holds. It is modelled by the list of its elements in insertion order;
  \<open>new_Set xs\<close> is \<open>Array.from(new Set(xs))\<close>.
\<close>

definition set_add :: "'a list \<Rightarrow> 'a \<Rightarrow> 'a list" where
  "set_add s x = (if x \<in> set s then s else s @ [x])"

definition new_Set :: "'a list \<Rightarrow> 'a list" where
  "new_Set xs = foldl set_add [] xs"

section \<open>Backend selection: getScrapingFallbackOrder\<close>

text \<open>The three environment variables that configure the external backends.\<close>

record env =
  SCRAPING_BEE_API_KEY :: "string option"
  FIRE_ENGINE_BETA_URL :: "string option"
  PLAYWRIGHT_MICROSERVICE_URL :: "string option"

definition baseScrapers :: "string list" where
  "baseScrapers = [''fire-engine'', ''scrapingBee'', ''playwright'', ''scrapingBeeLoad'', ''fetch'']"

text \<open>
  The predicate of \<open>baseScrapers.filter\<close>: the \<open>switch\<close> over the scraper's name
  that decides whether its configuration is present. The default branch (plain
  \<open>fetch\<close>, and any name that is not a known backend) needs no configuration.
\<close>

definition configured :: "env \<Rightarrow> string \<Rightarrow> bool" where
  "configured e scraper =
     (if scraper = ''scrapingBee'' \<or> scraper = ''scrapingBeeLoad'' then truthy (SCRAPING_BEE_API_KEY e)
      else if scraper = ''fire-engine'' then truthy (FIRE_ENGINE_BETA_URL e)
      else if scraper = ''playwright'' then truthy (PLAYWRIGHT_MICROSERVICE_URL e)
      else True)"

definition availableScrapers :: "env \<Rightarrow> string list" where
  "availableScrapers e = filter (configured e) baseScrapers"

definition defaultOrder :: "bool \<Rightarrow> bool \<Rightarrow> bool \<Rightarrow> string list" where
  "defaultOrder isWaitPresent isScreenshotPresent isHeadersPresent =
     (let order0 = [''scrapingBee'', ''fire-engine'', ''playwright'', ''scrapingBeeLoad'', ''fetch'']
      in if isWaitPresent \<or> isScreenshotPresent \<or> isHeadersPresent
         then ''fire-engine'' # ''playwright'' #
              filter (\<lambda>scraper. scraper \<noteq> ''fire-engine'' \<and> scraper \<noteq> ''playwright'') order0
         else order0)"

definition getScrapingFallbackOrder ::
  "env \<Rightarrow> string option \<Rightarrow> bool \<Rightarrow> bool \<Rightarrow> bool \<Rightarrow> string list" where
  "getScrapingFallbackOrder e defaultScraper isWaitPresent isScreenshotPresent isHeadersPresent =
     (let filteredDefaultOrder =
            filter (\<lambda>scraper. scraper \<in> set (availableScrapers e))
              (defaultOrder isWaitPresent isScreenshotPresent isHeadersPresent)
      in new_Set
           (if truthy defaultScraper
            then the defaultScraper # filteredDefaultOrder @ availableScrapers e
            else filteredDefaultOrder @ availableScrapers e))"

text \<open>An installation with none of the three external backends configured.\<close>

definition no_env :: env where
  "no_env = \<lparr>SCRAPING_BEE_API_KEY = None, FIRE_ENGINE_BETA_URL = None,
             PLAYWRIGHT_MICROSERVICE_URL = None\<rparr>"

section \<open>Link extraction: extractLinks\<close>

datatype js_error = Error string | TypeError string

text \<open>\<open>s.startsWith(p)\<close>.\<close>

fun startsWith :: "string \<Rightarrow> string \<Rightarrow> bool" where
  "startsWith s [] = True"
| "startsWith [] (c # p) = False"
| "startsWith (d # s) (c # p) = (d = c \<and> startsWith s p)"

text \<open>
  The body of the \<open>each\<close> callback for one anchor: the link it pushes, if any.
  \<open>href\<close> is the anchor's \<open>href\<close> attribute (\<open>None\<close> when the anchor has none);
  the branches are the source's, in the source's order.
\<close>

definition link_of :: "string \<Rightarrow> string \<Rightarrow> string option \<Rightarrow> string option" where
  "link_of origin baseUrl href =
     (case href of
        None \<Rightarrow> None
      | Some h \<Rightarrow>
          if h = [] then None
          else if startsWith h ''http://'' \<or> startsWith h ''https://'' then Some h
          else if startsWith h ''/'' then Some (origin @ h)
          else if \<not> startsWith h ''#'' \<and> \<not> startsWith h ''mailto:'' then Some (baseUrl @ ''/'' @ h)
          else if startsWith h ''mailto:'' then Some h
          else None)"

text \<open>
  The loop over the anchors of the page, followed by \<open>[...new Set(links)]\<close>:
  \<open>links\<close> grows by one \<open>push\<close> for every anchor that yields a link.
\<close>

definition push_link :: "string \<Rightarrow> string \<Rightarrow> string list \<Rightarrow> string option \<Rightarrow> string list" where
  "push_link origin baseUrl links href =
     (case link_of origin baseUrl href of None \<Rightarrow> links | Some l \<Rightarrow> links @ [l])"

definition links_of_anchors :: "string \<Rightarrow> string \<Rightarrow> string option list \<Rightarrow> string list" where
  "links_of_anchors origin baseUrl hrefs = new_Set (foldl (push_link origin baseUrl) [] hrefs)"

text \<open>
  \<open>extractLinks\<close> itself. The HTML parser (\<open>cheerio\<close>) and the URL parser of the
  platform are parameters: \<open>anchors html\<close> is the \<open>href\<close> attribute of every \<open>a\<close>
  element of the page in document order, and \<open>url_origin u\<close> is \<open>new URL(u).origin\<close>,
  \<open>None\<close> when the constructor throws because \<open>u\<close> is not a URL.
\<close>

definition extractLinks ::
  "(string \<Rightarrow> string option list) \<Rightarrow> (string \<Rightarrow> string option) \<Rightarrow> string \<Rightarrow> string
     \<Rightarrow> js_error + string list" where
  "extractLinks anchors url_origin html baseUrl =
     (case url_origin baseUrl of
        None \<Rightarrow> Inl (TypeError ''Invalid URL'')
      | Some origin \<Rightarrow> Inr (links_of_anchors origin baseUrl (anchors html)))"

definition is_fragment :: "string option \<Rightarrow> bool" where
  "is_fragment href = (case href of None \<Rightarrow> False | Some h \<Rightarrow> startsWith h ''#'')"

text \<open>Two pages for the examples: their anchors' \<open>href\<close> attributes, and a URL parser
  that knows the one page URL the examples use.\<close>

definition sample_anchors :: "string \<Rightarrow> string option list" where
  "sample_anchors html = [Some ''tel:123'', Some ''#top'', Some ''/x'', None, Some [],
     Some ''mailto:a@b.c'', Some ''/x'', Some ''http://q.org/'', Some ''javascript:void(0)'',
     Some ''HTTP://Q.org/x'', Some ''MAILTO:a@b.c'']"

definition tel_anchors :: "string \<Rightarrow> string option list" where
  "tel_anchors html = [Some ''tel:123'']"

definition sample_origin :: "string \<Rightarrow> string option" where
  "sample_origin u = (if u = ''https://a.com/p'' then Some ''https://a.com'' else None)"

section \<open>Documents\<close>

text \<open>
  The metadata object of a document: the keys \<open>extractMetadata\<close> found on the page, and
  the keys \<open>scrapSingleUrl\<close> writes after them. An optional field is \<open>None\<close> when the
  key is absent or \<open>undefined\<close>.
\<close>

record metadata =
  extracted :: "(string \<times> string) list"
  m_screenshot :: "string option"
  sourceURL :: "string option"
  pageStatusCode :: "int option"
  pageError :: "string option"

record document =
  content :: string
  markdown :: "string option"
  html :: "string option"
  rawHtml :: "string option"
  linksOnPage :: "string list option"
  metadata :: metadata
  createdAt :: "nat option"
  updatedAt :: "nat option"
  doc_type :: "string option"
  childrenLinks :: "string list option"
  provider :: "string option"

text \<open>\<open>Partial<Document>\<close>, the constructor's argument: the fields the constructor reads.\<close>

record document_data =
  d_content :: "string option"
  d_createdAt :: "nat option"
  d_updatedAt :: "nat option"
  d_type :: "string option"
  d_metadata :: "metadata option"
  d_markdown :: "string option"
  d_childrenLinks :: "string list option"
  d_provider :: "string option"

text \<open>
  The constructor of class \<open>Document\<close> (lib/entities.ts); \<open>now\<close> is \<open>new Date()\<close>.
  \<open>!data.content\<close> holds when the content is absent or the empty string.
\<close>

definition Document_new :: "nat \<Rightarrow> document_data \<Rightarrow> js_error + document" where
  "Document_new now data =
     (if \<not> truthy (d_content data) then Inl (Error ''Missing required fields'')
      else Inr \<lparr>content = the (d_content data),
                markdown = Some (case d_markdown data of None \<Rightarrow> [] | Some m \<Rightarrow> m),
                html = None, rawHtml = None, linksOnPage = None,
                metadata = (case d_metadata data of
                              None \<Rightarrow> \<lparr>extracted = [], m_screenshot = None, sourceURL = Some [],
                                        pageStatusCode = None, pageError = None\<rparr>
                            | Some m \<Rightarrow> m),
                createdAt = Some (case d_createdAt data of None \<Rightarrow> now | Some t \<Rightarrow> t),
                updatedAt = Some (case d_updatedAt data of None \<Rightarrow> now | Some t \<Rightarrow> t),
                doc_type = Some (if truthy (d_type data) then the (d_type data) else ''unknown''),
                childrenLinks = d_childrenLinks data,
                provider = (if truthy (d_provider data) then d_provider data else None)\<rparr>)"

text \<open>A constructor argument with a content and nothing else.\<close>

definition sample_data :: document_data where
  "sample_data = \<lparr>d_content = Some ''hello'', d_createdAt = None, d_updatedAt = None,
                   d_type = None, d_metadata = None, d_markdown = None,
                   d_childrenLinks = None, d_provider = None\<rparr>"

text \<open>The document the constructor makes of it at time 7.\<close>

definition sample_document :: document where
  "sample_document =
     \<lparr>content = ''hello'', markdown = Some [], html = None, rawHtml = None, linksOnPage = None,
      metadata = \<lparr>extracted = [], m_screenshot = None, sourceURL = Some [],
                   pageStatusCode = None, pageError = None\<rparr>,
      createdAt = Some 7, updatedAt = Some 7, doc_type = Some ''unknown'',
      childrenLinks = None, provider = None\<rparr>"

section \<open>Fetching one page: scrapSingleUrl\<close>

text \<open>
  \<open>s.trim()\<close> removes white space from both ends. A \<open>char\<close> stands for a code unit
  below 256; the white space among them is tab, line feed, vertical tab, form feed,
  carriage return, space and the no-break space.
\<close>

definition is_space :: "char \<Rightarrow> bool" where
  "is_space c = (c \<in> set [CHR 0x09, CHR 0x0A, CHR 0x0B, CHR 0x0C, CHR 0x0D, CHR 0x20, CHR 0xA0])"

definition trim :: "string \<Rightarrow> string" where
  "trim s = rev (dropWhile is_space (rev (dropWhile is_space s)))"

record pageOptions =
  onlyMainContent :: bool
  includeHtml :: bool
  includeRawHtml :: bool
  waitFor :: "int option"
  screenshot :: bool
  headers :: "(string \<times> string) list option"

record extractorOptions =
  mode :: string

text \<open>What one call of \<open>attemptScraping\<close> returns.\<close>

record attempt =
  a_text :: string
  a_html :: string
  a_rawHtml :: string
  a_screenshot :: string
  a_pageStatusCode :: "int option"
  a_pageError :: "string option"

text \<open>The variables \<open>scrapSingleUrl\<close> declares before its \<open>try\<close> block.\<close>

record vars =
  v_text :: string
  v_html :: string
  v_rawHtml :: string
  v_screenshot :: string
  v_pageStatusCode :: int
  v_pageError :: "string option"

definition init_vars :: vars where
  "init_vars = \<lparr>v_text = [], v_html = [], v_rawHtml = [], v_screenshot = [],
                 v_pageStatusCode = 200, v_pageError = None\<rparr>"

text \<open>What a backend returns: the page (\<open>html\<close> of Fire Engine, \<open>content\<close> of the
  others), a screenshot, and the status code and error of the page, if any.\<close>

record scraper_response =
  r_content :: string
  r_screenshot :: string
  r_pageStatusCode :: "int option"
  r_pageError :: "string option"

text \<open>What the custom-scraping hook asks for: the scraper (\<open>"fire-engine"\<close> or \<open>"pdf"\<close>)
  and the URL to fetch with it.\<close>

record custom_scraping =
  c_scraper :: string
  c_url :: string

text \<open>
  What \<open>scrapSingleUrl\<close> calls and does not define itself, as parameters. \<open>'w\<close> is the
  state of the network, which a backend call reads and changes.
  \<^item> \<open>url_hostname u\<close> is \<open>new URL(u).hostname\<close> and \<open>url_origin u\<close> is
    \<open>new URL(u).origin\<close>, \<open>None\<close> when the constructor throws;
  \<^item> \<open>urlSpecificParams k\<close> is the \<open>defaultScraper\<close> field of the table's entry for
    \<open>k\<close>: \<open>None\<close> without an entry, \<open>Some None\<close> for an entry without the field;
  \<^item> the four backends and the PDF fetch take the network state and the URL
    (\<open>scrapWithScrapingBee\<close> also its \<open>wait_browser\<close> argument) and return a response or
    throw, and leave a new network state;
  \<^item> \<open>handleCustomScraping\<close>, \<open>removeUnwantedElements\<close>, \<open>parseMarkdown\<close>,
    \<open>extractMetadata\<close> and \<open>anchors\<close> (the \<open>href\<close> attributes of the page's \<open>a\<close>
    elements) are functions of their arguments.
\<close>

record 'w deps =
  url_hostname :: "string \<Rightarrow> string option"
  url_origin :: "string \<Rightarrow> string option"
  urlSpecificParams :: "string \<Rightarrow> string option option"
  scrapWithFireEngine :: "'w \<Rightarrow> string \<Rightarrow> (js_error + scraper_response) \<times> 'w"
  scrapWithScrapingBee :: "'w \<Rightarrow> string \<Rightarrow> string \<Rightarrow> (js_error + scraper_response) \<times> 'w"
  scrapWithPlaywright :: "'w \<Rightarrow> string \<Rightarrow> (js_error + scraper_response) \<times> 'w"
  scrapWithFetch :: "'w \<Rightarrow> string \<Rightarrow> (js_error + scraper_response) \<times> 'w"
  fetchAndProcessPdf :: "'w \<Rightarrow> string \<Rightarrow> (js_error + scraper_response) \<times> 'w"
  handleCustomScraping :: "string \<Rightarrow> string \<Rightarrow> custom_scraping option"
  removeUnwantedElements :: "string \<Rightarrow> pageOptions \<Rightarrow> string"
  parseMarkdown :: "string \<Rightarrow> string"
  extractMetadata :: "string \<Rightarrow> string \<Rightarrow> (string \<times> string) list"
  anchors :: "string \<Rightarrow> string option list"

text \<open>
  The closure \<open>attemptScraping\<close>, in three steps. First the \<open>switch\<close> over the method: a
  backend runs only when its environment variable is set, and \<open>scraperResponse\<close> keeps
  its initial value otherwise (and for a method that is none of the five). Only Fire
  Engine's screenshot is copied.
\<close>

definition no_response :: scraper_response where
  "no_response = \<lparr>r_content = [], r_screenshot = [], r_pageStatusCode = None, r_pageError = None\<rparr>"

definition without_screenshot ::
  "(js_error + scraper_response) \<times> 'w \<Rightarrow> (js_error + scraper_response) \<times> 'w" where
  "without_screenshot res =
     (case res of (Inl err, w) \<Rightarrow> (Inl err, w) | (Inr r, w) \<Rightarrow> (Inr (r\<lparr>r_screenshot := []\<rparr>), w))"

definition run_method ::
  "'w deps \<Rightarrow> env \<Rightarrow> 'w \<Rightarrow> string \<Rightarrow> string \<Rightarrow> (js_error + scraper_response) \<times> 'w" where
  "run_method d e w url method =
     (if method = ''fire-engine'' then
        (if truthy (FIRE_ENGINE_BETA_URL e) then scrapWithFireEngine d w url else (Inr no_response, w))
      else if method = ''scrapingBee'' then
        (if truthy (SCRAPING_BEE_API_KEY e)
         then without_screenshot (scrapWithScrapingBee d w url ''domcontentloaded'')
         else (Inr no_response, w))
      else if method = ''playwright'' then
        (if truthy (PLAYWRIGHT_MICROSERVICE_URL e)
         then without_screenshot (scrapWithPlaywright d w url) else (Inr no_response, w))
      else if method = ''scrapingBeeLoad'' then
        (if truthy (SCRAPING_BEE_API_KEY e)
         then without_screenshot (scrapWithScrapingBee d w url ''networkidle2'')
         else (Inr no_response, w))
      else if method = ''fetch'' then without_screenshot (scrapWithFetch d w url)
      else (Inr no_response, w))"

text \<open>
  Then the custom-scraping hook on the text so far: the \<open>html\<close> of
  \<open>customScrapedContent\<close>, when the hook asked for a fetch by Fire Engine or for a PDF.
\<close>

definition run_custom :: "'w deps \<Rightarrow> 'w \<Rightarrow> string \<Rightarrow> string \<Rightarrow> (js_error + string option) \<times> 'w" where
  "run_custom d w scraped url =
     (case handleCustomScraping d scraped url of
        None \<Rightarrow> (Inr None, w)
      | Some c \<Rightarrow>
          if c_scraper c = ''fire-engine'' then
            (case scrapWithFireEngine d w (c_url c) of
               (Inl err, w') \<Rightarrow> (Inl err, w')
             | (Inr r, w') \<Rightarrow> (Inr (Some (r_content r)), w'))
          else if c_scraper c = ''pdf'' then
            (case fetchAndProcessPdf d w (c_url c) of
               (Inl err, w') \<Rightarrow> (Inl err, w')
             | (Inr r, w') \<Rightarrow> (Inr (Some (r_content r)), w'))
          else (Inr None, w))"

text \<open>
  Last the cleaning and the conversion to markdown. The status code and the error stay
  those of the backend; \<open>pageError || undefined\<close> drops an empty error.
\<close>

definition attemptScraping ::
  "'w deps \<Rightarrow> env \<Rightarrow> 'w \<Rightarrow> pageOptions \<Rightarrow> string \<Rightarrow> string \<Rightarrow> (js_error + attempt) \<times> 'w" where
  "attemptScraping d e w po url method =
     (case run_method d e w url method of
        (Inl err, w1) \<Rightarrow> (Inl err, w1)
      | (Inr r, w1) \<Rightarrow>
          (case run_custom d w1 (r_content r) url of
             (Inl err, w2) \<Rightarrow> (Inl err, w2)
           | (Inr custom, w2) \<Rightarrow>
               (let scraped = (case custom of None \<Rightarrow> r_content r | Some h \<Rightarrow> h);
                    cleanedHtml = removeUnwantedElements d scraped po
                in (Inr \<lparr>a_text = parseMarkdown d cleanedHtml, a_html = cleanedHtml,
                          a_rawHtml = scraped, a_screenshot = r_screenshot r,
                          a_pageStatusCode = r_pageStatusCode r,
                          a_pageError = (if truthy (r_pageError r) then r_pageError r else None)\<rparr>,
                    w2))))"

text \<open>\<open>hostname.replace(/^www\./, "")\<close>.\<close>

definition strip_www :: "string \<Rightarrow> string" where
  "strip_www h = (if startsWith h ''www.'' then drop 4 h else h)"

text \<open>\<open>existingHtml && existingHtml.trim().length >= 100\<close>, and the same test on \<open>text\<close>.\<close>

definition long_enough :: "string \<Rightarrow> bool" where
  "long_enough s = (s \<noteq> [] \<and> 100 \<le> length (trim s))"

text \<open>
  The assignments of one loop iteration after \<open>attemptScraping\<close> has returned. A status
  code is true in a condition when it is a number other than 0; \<open>null >= 400\<close> and
  \<open>undefined >= 400\<close> are false.
\<close>

definition record_attempt :: "vars \<Rightarrow> attempt \<Rightarrow> vars" where
  "record_attempt v attempt =
     (let v1 = v\<lparr>v_text := a_text attempt, v_html := a_html attempt,
                  v_rawHtml := a_rawHtml attempt, v_screenshot := a_screenshot attempt\<rparr>;
          v2 = (case a_pageStatusCode attempt of
                  None \<Rightarrow> v1
                | Some code \<Rightarrow> if code \<noteq> 0 then v1\<lparr>v_pageStatusCode := code\<rparr> else v1)
      in case a_pageStatusCode attempt of
           None \<Rightarrow> v2
         | Some code \<Rightarrow>
             if truthy (a_pageError attempt) \<and> 400 \<le> code then v2\<lparr>v_pageError := a_pageError attempt\<rparr>
             else if code \<noteq> 0 \<and> code < 400 then v2\<lparr>v_pageError := None\<rparr>
             else v2)"

text \<open>
  The \<open>for (const scraper of scrapersInOrder)\<close> loop. It returns the error that left
  the loop by a throw (if any), the variables, the calls of \<open>attemptScraping\<close> it made
  in order (the backend and what the call gave), and the network state.
\<close>

fun fallback_loop ::
  "'w deps \<Rightarrow> env \<Rightarrow> pageOptions \<Rightarrow> string \<Rightarrow> string \<Rightarrow> string list \<Rightarrow> vars \<Rightarrow> 'w
     \<Rightarrow> js_error option \<times> vars \<times> (string \<times> (js_error + attempt)) list \<times> 'w" where
  "fallback_loop d e po urlToScrap existingHtml [] v w = (None, v, [], w)"
| "fallback_loop d e po urlToScrap existingHtml (scraper # rest) v w =
     (if long_enough existingHtml then
        (let cleanedHtml = removeUnwantedElements d existingHtml po
         in (None, v\<lparr>v_text := parseMarkdown d cleanedHtml, v_html := cleanedHtml\<rparr>, [], w))
      else
        (case attemptScraping d e w po urlToScrap scraper of
           (Inl err, w') \<Rightarrow> (Some err, v, [(scraper, Inl err)], w')
         | (Inr attempt, w') \<Rightarrow>
             (let v' = record_attempt v attempt
              in if long_enough (v_text v') then (None, v', [(scraper, Inr attempt)], w')
                 else if v_pageStatusCode v' \<noteq> 0 \<and> v_pageStatusCode v' = 404
                 then (None, v', [(scraper, Inr attempt)], w')
                 else (case fallback_loop d e po urlToScrap existingHtml rest v' w' of
                         (thrown, v'', calls, w'') \<Rightarrow>
                           (thrown, v'', (scraper, Inr attempt) # calls, w'')))))"

text \<open>
  The network state after the attempts for the given backends, made one after the
  other from state \<open>w\<close>.
\<close>

fun after_attempts :: "'w deps \<Rightarrow> env \<Rightarrow> pageOptions \<Rightarrow> string \<Rightarrow> 'w \<Rightarrow> string list \<Rightarrow> 'w" where
  "after_attempts d e po urlToScrap w [] = w"
| "after_attempts d e po urlToScrap w (scraper # rest) =
     after_attempts d e po urlToScrap (snd (attemptScraping d e w po urlToScrap scraper)) rest"

text \<open>The rest of the \<open>try\<close> block: the throw on an empty text, and the document.\<close>

definition build_document ::
  "'w deps \<Rightarrow> pageOptions \<Rightarrow> extractorOptions \<Rightarrow> string \<Rightarrow> vars \<Rightarrow> js_error + document" where
  "build_document d po eo urlToScrap v =
     (if v_text v = [] then Inl (Error (''All scraping methods failed for URL: '' @ urlToScrap))
      else
        (case extractLinks (anchors d) (url_origin d) (v_rawHtml v) urlToScrap of
           Inl err \<Rightarrow> Inl err
         | Inr links \<Rightarrow>
             Inr \<lparr>content = v_text v, markdown = Some (v_text v),
                  html = (if includeHtml po then Some (v_html v) else None),
                  rawHtml = (if includeRawHtml po \<or> mode eo = ''llm-extraction-from-raw-html''
                             then Some (v_rawHtml v) else None),
                  linksOnPage = Some links,
                  metadata = \<lparr>extracted = extractMetadata d (v_rawHtml v) urlToScrap,
                               m_screenshot = (if v_screenshot v \<noteq> [] then Some (v_screenshot v) else None),
                               sourceURL = Some urlToScrap,
                               pageStatusCode = Some (v_pageStatusCode v),
                               pageError = v_pageError v\<rparr>,
                  createdAt = None, updatedAt = None, doc_type = None,
                  childrenLinks = None, provider = None\<rparr>))"

text \<open>The object the \<open>catch\<close> block returns.\<close>

definition failure_document :: "string \<Rightarrow> vars \<Rightarrow> document" where
  "failure_document urlToScrap v =
     \<lparr>content = [], markdown = Some [], html = Some [], rawHtml = None, linksOnPage = Some [],
      metadata = \<lparr>extracted = [], m_screenshot = None, sourceURL = Some urlToScrap,
                   pageStatusCode = Some (v_pageStatusCode v), pageError = v_pageError v\<rparr>,
      createdAt = None, updatedAt = None, doc_type = None, childrenLinks = None, provider = None\<rparr>"

definition isWaitPresent_of :: "pageOptions \<Rightarrow> bool" where
  "isWaitPresent_of po = (case waitFor po of None \<Rightarrow> False | Some n \<Rightarrow> 0 < n)"

text \<open>
  The start of the \<open>try\<close> block: the key of the per-domain table is the host name
  without a leading \<open>www.\<close>, or the URL itself when it does not parse; the default
  scraper is the table's, or the empty string; the three hints come from the options.
\<close>

definition defaultScraper_of :: "'w deps \<Rightarrow> string \<Rightarrow> string" where
  "defaultScraper_of d urlToScrap =
     (let urlKey = (case url_hostname d urlToScrap of None \<Rightarrow> urlToScrap | Some h \<Rightarrow> strip_www h)
      in case urlSpecificParams d urlKey of Some (Some s) \<Rightarrow> s | _ \<Rightarrow> [])"

definition scrapersInOrder_of :: "'w deps \<Rightarrow> env \<Rightarrow> pageOptions \<Rightarrow> string \<Rightarrow> string list" where
  "scrapersInOrder_of d e po urlToScrap =
     getScrapingFallbackOrder e (Some (defaultScraper_of d urlToScrap))
       (isWaitPresent_of po) (screenshot po) (headers po \<noteq> None)"

text \<open>
  \<open>scrapSingleUrl\<close>: the document, the calls of \<open>attemptScraping\<close> made, and the
  network state it leaves. Every throw inside the \<open>try\<close> block ends in the \<open>catch\<close>
  block, which returns the failure document.
\<close>

definition scrapSingleUrl ::
  "'w deps \<Rightarrow> env \<Rightarrow> string \<Rightarrow> pageOptions \<Rightarrow> extractorOptions \<Rightarrow> string \<Rightarrow> 'w
     \<Rightarrow> document \<times> (string \<times> (js_error + attempt)) list \<times> 'w" where
  "scrapSingleUrl d e url po eo existingHtml w =
     (let urlToScrap = trim url;
          scrapersInOrder = scrapersInOrder_of d e po urlToScrap
      in case fallback_loop d e po urlToScrap existingHtml scrapersInOrder init_vars w of
           (thrown, v, calls, w') \<Rightarrow>
             (case (case thrown of Some err \<Rightarrow> Inl err
                                 | None \<Rightarrow> build_document d po eo urlToScrap v) of
                Inl err \<Rightarrow> (failure_document urlToScrap v, calls, w')
              | Inr doc \<Rightarrow> (doc, calls, w')))"

text \<open>
  Examples: an installation with every backend configured, default options, and
  parameters under which every backend returns the same response and the network state
  counts the requests. The custom-scraping hook of the examples asks for nothing, and
  their HTML cleaner and markdown converter return their input.
\<close>

definition full_env :: env where
  "full_env = \<lparr>SCRAPING_BEE_API_KEY = Some ''key'', FIRE_ENGINE_BETA_URL = Some ''http://fe.local'',
               PLAYWRIGHT_MICROSERVICE_URL = Some ''http://pw.local''\<rparr>"

definition default_pageOptions :: pageOptions where
  "default_pageOptions = \<lparr>onlyMainContent = True, includeHtml = False, includeRawHtml = False,
                           waitFor = Some 0, screenshot = False, headers = None\<rparr>"

definition default_extractorOptions :: extractorOptions where
  "default_extractorOptions = \<lparr>mode = ''llm-extraction-from-markdown''\<rparr>"

definition fixed_deps :: "scraper_response \<Rightarrow> nat deps" where
  "fixed_deps r =
     \<lparr>url_hostname = (\<lambda>u. if u = ''https://a.com/p'' then Some ''a.com'' else None),
      url_origin = sample_origin,
      urlSpecificParams = (\<lambda>k. None),
      scrapWithFireEngine = (\<lambda>w url. (Inr r, Suc w)),
      scrapWithScrapingBee = (\<lambda>w url wait_browser. (Inr r, Suc w)),
      scrapWithPlaywright = (\<lambda>w url. (Inr r, Suc w)),
      scrapWithFetch = (\<lambda>w url. (Inr r, Suc w)),
      fetchAndProcessPdf = (\<lambda>w url. (Inr r, Suc w)),
      handleCustomScraping = (\<lambda>scraped url. None),
      removeUnwantedElements = (\<lambda>h po. h),
      parseMarkdown = (\<lambda>h. h),
      extractMetadata = (\<lambda>h u. []),
      anchors = (\<lambda>h. [])\<rparr>"

text \<open>
  A backend that timed out, as \<open>scrapWithFireEngine\<close> reports it from its \<open>catch\<close>
  block (an empty page, the status code \<open>null\<close>, the error message of the timeout), and
  the attempt \<open>attemptScraping\<close> makes of it.
\<close>

definition timeout_response :: scraper_response where
  "timeout_response = \<lparr>r_content = [], r_screenshot = [], r_pageStatusCode = None,
                        r_pageError = Some ''Request timed out''\<rparr>"

definition timeout_attempt :: attempt where
  "timeout_attempt = \<lparr>a_text = [], a_html = [], a_rawHtml = [], a_screenshot = [],
                       a_pageStatusCode = None, a_pageError = Some ''Request timed out''\<rparr>"

text \<open>A backend that found no page, and a backend that returned a page of 100 characters.\<close>

definition notfound_response :: scraper_response where
  "notfound_response = \<lparr>r_content = ''Not Found'', r_screenshot = [], r_pageStatusCode = Some 404,
                         r_pageError = Some ''Not Found''\<rparr>"

definition notfound_attempt :: attempt where
  "notfound_attempt = \<lparr>a_text = ''Not Found'', a_html = ''Not Found'', a_rawHtml = ''Not Found'',
                        a_screenshot = [], a_pageStatusCode = Some 404, a_pageError = Some ''Not Found''\<rparr>"

definition page_response :: scraper_response where
  "page_response = \<lparr>r_content = replicate 100 (CHR ''a''), r_screenshot = [],
                     r_pageStatusCode = Some 200, r_pageError = None\<rparr>"

definition page_attempt :: attempt where
  "page_attempt = \<lparr>a_text = replicate 100 (CHR ''a''), a_html = replicate 100 (CHR ''a''),
                    a_rawHtml = replicate 100 (CHR ''a''), a_screenshot = [],
                    a_pageStatusCode = Some 200, a_pageError = None\<rparr>"

text \<open>An attempt that returned with no text and no status code.\<close>

definition timed_out :: "string \<times> (js_error + attempt) \<Rightarrow> bool" where
  "timed_out call = (case snd call of Inl err \<Rightarrow> False
                     | Inr a \<Rightarrow> a_text a = [] \<and> a_pageStatusCode a = None)"

text \<open>The calls of the example in which every backend times out, and the document of
  the examples in which a page is returned.\<close>

definition five_timeouts :: "(string \<times> (js_error + attempt)) list" where
  "five_timeouts =
     [(''scrapingBee'', Inr timeout_attempt), (''fire-engine'', Inr timeout_attempt),
      (''playwright'', Inr timeout_attempt), (''scrapingBeeLoad'', Inr timeout_attempt),
      (''fetch'', Inr timeout_attempt)]"

definition page_document :: "string \<Rightarrow> int \<Rightarrow> string option \<Rightarrow> document" where
  "page_document md code err =
     \<lparr>content = md, markdown = Some md, html = None, rawHtml = None, linksOnPage = Some [],
      metadata = \<lparr>extracted = [], m_screenshot = None, sourceURL = Some ''https://a.com/p'',
                   pageStatusCode = Some code, pageError = err\<rparr>,
      createdAt = None, updatedAt = None, doc_type = None, childrenLinks = None, provider = None\<rparr>"

text \<open>
  A second example: every backend returns the page of 100 characters and the network
  state is the log of the requests made, by backend. The custom-scraping hook asks for
  the page to be fetched by Fire Engine, as it does for the sites it knows. With
  \<open>waitFor\<close> set, the fallback order starts with Fire Engine.
\<close>

definition logging_deps :: "string list deps" where
  "logging_deps =
     \<lparr>url_hostname = (\<lambda>u. if u = ''https://a.com/p'' then Some ''a.com'' else None),
      url_origin = sample_origin,
      urlSpecificParams = (\<lambda>k. None),
      scrapWithFireEngine = (\<lambda>w url. (Inr page_response, w @ [''fire-engine''])),
      scrapWithScrapingBee = (\<lambda>w url wait_browser. (Inr page_response, w @ [''scrapingBee''])),
      scrapWithPlaywright = (\<lambda>w url. (Inr page_response, w @ [''playwright''])),
      scrapWithFetch = (\<lambda>w url. (Inr page_response, w @ [''fetch''])),
      fetchAndProcessPdf = (\<lambda>w url. (Inr page_response, w @ [''pdf''])),
      handleCustomScraping = (\<lambda>scraped url. Some \<lparr>c_scraper = ''fire-engine'', c_url = url\<rparr>),
      removeUnwantedElements = (\<lambda>h po. h),
      parseMarkdown = (\<lambda>h. h),
      extractMetadata = (\<lambda>h u. []),
      anchors = (\<lambda>h. [])\<rparr>"

definition wait_pageOptions :: pageOptions where
  "wait_pageOptions = default_pageOptions\<lparr>waitFor := Some 1000\<rparr>"

section \<open>Sitemaps: getLinksFromSitemap\<close>

text \<open>The two values of \<open>mode\<close>, \<open>'axios'\<close> and \<open>'fire-engine'\<close>.\<close>

datatype fetch_mode = Axios | FireEngine

text \<open>
  What the XML parser (xml2js) makes of a sitemap: the root element (\<open>urlset\<close> or
  \<open>sitemapindex\<close>) with its \<open>sitemap\<close> children and its \<open>url\<close> children, each a list
  of entries when the root has such children, and each entry with the texts of its
  \<open>loc\<close> children when it has any.
\<close>

record xml_entry =
  loc :: "string list option"

record xml_root =
  root_sitemap :: "xml_entry list option"
  root_url :: "xml_entry list option"

text \<open>
  The web and the parser, as parameters. A request either throws (\<open>Inl\<close>) or gives the
  body; \<open>scrapWithFireEngine_html u\<close> is the \<open>html\<close> field of what \<open>scrapWithFireEngine\<close>
  returns for \<open>u\<close>. \<open>parseStringPromise\<close> throws, or gives no root (\<open>Inr None\<close>: neither
  \<open>parsed.urlset\<close> nor \<open>parsed.sitemapindex\<close> is true), or a root; a parse that yields
  \<open>null\<close>, on which \<open>parsed.urlset\<close> throws, counts as a throw.
\<close>

record web =
  axios_get :: "string \<Rightarrow> js_error + string"
  scrapWithFireEngine_html :: "string \<Rightarrow> js_error + string"
  parseStringPromise :: "string \<Rightarrow> js_error + xml_root option"

definition fetch_content :: "web \<Rightarrow> fetch_mode \<Rightarrow> string \<Rightarrow> js_error + string" where
  "fetch_content wb m sitemapUrl =
     (case m of Axios \<Rightarrow> axios_get wb sitemapUrl
              | FireEngine \<Rightarrow> scrapWithFireEngine_html wb sitemapUrl)"


text \<open>The body of the loop over \<open>root.url\<close>.\<close>

definition push_loc :: "string list \<Rightarrow> xml_entry \<Rightarrow> string list" where
  "push_loc allUrls entry = (case loc entry of Some (l # ls) \<Rightarrow> allUrls @ [l] | _ \<Rightarrow> allUrls)"

text \<open>
  \<open>getLinksFromSitemap\<close> and its loop over \<open>root.sitemap\<close>. The array \<open>allUrls\<close> that
  the source shares between the calls is passed in and returned. A sitemap index may
  name itself, so the recursion need not end: \<open>fuel\<close> bounds the depth of nested calls,
  and \<open>None\<close> says that the bound was reached. The inner \<open>catch\<close> returns \<open>allUrls\<close>
  when the request throws; the outer \<open>catch\<close> ends the call when the parser throws,
  before anything was pushed.
\<close>

fun getLinksFromSitemap ::
  "web \<Rightarrow> fetch_mode \<Rightarrow> nat \<Rightarrow> string \<Rightarrow> string list \<Rightarrow> string list option"
and sitemap_children ::
  "web \<Rightarrow> fetch_mode \<Rightarrow> nat \<Rightarrow> xml_entry list \<Rightarrow> string list \<Rightarrow> string list option"
where
  "getLinksFromSitemap wb m 0 sitemapUrl allUrls = None"
| "getLinksFromSitemap wb m (Suc fuel) sitemapUrl allUrls =
     (case fetch_content wb m sitemapUrl of
        Inl err \<Rightarrow> Some allUrls
      | Inr xml \<Rightarrow>
          (case parseStringPromise wb xml of
             Inl err \<Rightarrow> Some allUrls
           | Inr None \<Rightarrow> Some allUrls
           | Inr (Some root) \<Rightarrow>
               (case root_sitemap root of
                  Some sitemaps \<Rightarrow> sitemap_children wb m fuel sitemaps allUrls
                | None \<Rightarrow>
                    (case root_url root of
                       Some urls \<Rightarrow> Some (foldl push_loc allUrls urls)
                     | None \<Rightarrow> Some allUrls))))"
| "sitemap_children wb m fuel [] allUrls = Some allUrls"
| "sitemap_children wb m fuel (sitemap # rest) allUrls =
     (case loc sitemap of
        Some (l # ls) \<Rightarrow>
          (case getLinksFromSitemap wb m fuel l allUrls of
             None \<Rightarrow> None
           | Some allUrls' \<Rightarrow> sitemap_children wb m fuel rest allUrls')
      | _ \<Rightarrow> sitemap_children wb m fuel rest allUrls)"






section \<open>Cancelling a crawl: crawlCancelController\<close>

text \<open>
  What \<open>authenticateUser\<close> resolved to. The team is read only after \<open>success\<close>.
\<close>

record auth_response =
  success :: bool
  team_id :: string
  auth_error :: "string option"
  auth_status :: int

text \<open>A job of the queue: its state, and the \<open>partialDocs\<close> of its progress, if any.\<close>

record job =
  job_state :: string
  partialDocs :: "document list option"

text \<open>
  \<open>supabase_service\<close> (services/supabase.ts) is a proxy: without a configured client every
  property is a function that throws. A configured client answers the query on table
  \<open>bulljobs_teams\<close> (rows of job id and team id) with the matching rows, or with an
  error.
\<close>

datatype supabase_client = NotConfigured | Client "string option" "(string \<times> string) list"

text \<open>
  The state the controller works on: the jobs of the queue by id, the database, the
  billing service (an error message when it is down) and the billing calls made.
\<close>

record sys =
  jobs :: "string \<Rightarrow> job option"
  supabase_service :: supabase_client
  billing_error :: "string option"
  billed :: "(string \<times> nat) list"

datatype response_body = ErrorBody "string option" | StatusBody string

record response =
  status_code :: int
  body :: response_body

text \<open>\<open>supabase_service.from("bulljobs_teams").select("*").eq("job_id", ...).eq("team_id", ...)\<close>:
  a throw, or the query's \<open>error\<close>, or its \<open>data\<close>.\<close>

definition select_job_team ::
  "supabase_client \<Rightarrow> string \<Rightarrow> string \<Rightarrow> js_error + (string + (string \<times> string) list)" where
  "select_job_team sb jobId team =
     (case sb of
        NotConfigured \<Rightarrow> Inl (Error ''Supabase client is not configured.'')
      | Client (Some msg) rows \<Rightarrow> Inr (Inl msg)
      | Client None rows \<Rightarrow> Inr (Inr (filter (\<lambda>row. fst row = jobId \<and> snd row = team) rows)))"

definition billTeam :: "sys \<Rightarrow> string \<Rightarrow> nat \<Rightarrow> js_error + sys" where
  "billTeam s team n =
     (case billing_error s of
        Some msg \<Rightarrow> Inl (Error msg)
      | None \<Rightarrow> Inr (s\<lparr>billed := billed s @ [(team, n)]\<rparr>))"

definition message :: "js_error \<Rightarrow> string" where
  "message err = (case err of Error m \<Rightarrow> m | TypeError m \<Rightarrow> m)"

text \<open>
  \<open>crawlCancelController\<close>: the response and the state it leaves. \<open>moveToFailed\<close> is the
  queue's operation on a job; it returns the job as the queue then holds it, or
  throws, which the inner \<open>catch\<close> logs. A throw anywhere else ends in the outer
  \<open>catch\<close>, which answers 500.
\<close>

definition crawlCancelController ::
  "(job \<Rightarrow> js_error + job) \<Rightarrow> auth_response \<Rightarrow> string \<Rightarrow> sys \<Rightarrow> response \<times> sys" where
  "crawlCancelController moveToFailed auth jobId s =
     (if \<not> success auth
      then (\<lparr>status_code = auth_status auth, body = ErrorBody (auth_error auth)\<rparr>, s)
      else case jobs s jobId of
        None \<Rightarrow> (\<lparr>status_code = 404, body = ErrorBody (Some ''Job not found'')\<rparr>, s)
      | Some job \<Rightarrow>
          (case select_job_team (supabase_service s) jobId (team_id auth) of
             Inl err \<Rightarrow> (\<lparr>status_code = 500, body = ErrorBody (Some (message err))\<rparr>, s)
           | Inr (Inl supaError) \<Rightarrow> (\<lparr>status_code = 500, body = ErrorBody (Some supaError)\<rparr>, s)
           | Inr (Inr data) \<Rightarrow>
               if length data = 0
               then (\<lparr>status_code = 403, body = ErrorBody (Some ''Unauthorized'')\<rparr>, s)
               else
                 (case (case partialDocs job of
                          Some docs \<Rightarrow>
                            if 0 < length docs \<and> job_state job = ''active''
                            then billTeam s (team_id auth) (length docs) else Inr s
                        | None \<Rightarrow> Inr s) of
                    Inl err \<Rightarrow> (\<lparr>status_code = 500, body = ErrorBody (Some (message err))\<rparr>, s)
                  | Inr s1 \<Rightarrow>
                      (let job' = (case moveToFailed job of Inl err \<Rightarrow> job | Inr j \<Rightarrow> j);
                           s2 = s1\<lparr>jobs := (jobs s1)(jobId \<mapsto> job')\<rparr>
                       in (\<lparr>status_code = 200,
                            body = StatusBody (if job_state job' = ''failed'' then ''cancelled''
                                               else ''Cancelling...'')\<rparr>, s2)))))"

text \<open>
  The records of table \<open>bulljobs_teams\<close> that the database holds (none without a
  configured client), and whether a query on it returns data: the client is configured
  and answers without an error.
\<close>

definition stored_rows :: "supabase_client \<Rightarrow> (string \<times> string) list" where
  "stored_rows sb = (case sb of NotConfigured \<Rightarrow> [] | Client err rows \<Rightarrow> rows)"

definition query_succeeds :: "supabase_client \<Rightarrow> bool" where
  "query_succeeds sb = (case sb of NotConfigured \<Rightarrow> False | Client err rows \<Rightarrow> err = None)"

text \<open>An example: an active job of team \<open>team-a\<close> with one partial document, and a queue
  whose \<open>moveToFailed\<close> succeeds; the same system on an installation without Supabase,
  and with a database that answers every query with an error.\<close>

definition mark_failed :: "job \<Rightarrow> js_error + job" where
  "mark_failed j = Inr (j\<lparr>job_state := ''failed''\<rparr>)"

definition sample_job :: job where
  "sample_job = \<lparr>job_state = ''active'', partialDocs = Some [page_document ''page'' 200 None]\<rparr>"

definition sample_sys :: sys where
  "sample_sys =
     \<lparr>jobs = [''job-1'' \<mapsto> sample_job],
      supabase_service = Client None [(''job-1'', ''team-a'')],
      billing_error = None,
      billed = []\<rparr>"

definition unconfigured_sys :: sys where
  "unconfigured_sys = sample_sys\<lparr>supabase_service := NotConfigured\<rparr>"

definition failing_sys :: sys where
  "failing_sys = sample_sys\<lparr>supabase_service := Client (Some ''connection refused'') [(''job-1'', ''team-a'')]\<rparr>"

definition auth_as :: "string \<Rightarrow> auth_response" where
  "auth_as team = \<lparr>success = True, team_id = team, auth_error = None, auth_status = 200\<rparr>"

section \<open>Insertion-ordered sets\<close>

lemma set_foldl_set_add: "set (foldl set_add acc xs) = set acc \<union> set xs"
  by (induction xs arbitrary: acc) (auto simp: set_add_def)

lemma distinct_foldl_set_add: "distinct acc \<Longrightarrow> distinct (foldl set_add acc xs)"
  by (induction xs arbitrary: acc) (auto simp: set_add_def)

lemma set_new_Set: "set (new_Set xs) = set xs"
  by (simp add: new_Set_def set_foldl_set_add)

lemma distinct_new_Set: "distinct (new_Set xs)"
  by (simp add: new_Set_def distinct_foldl_set_add)

text \<open>
  Insertion order keeps the first occurrence of every element: reversing, removing
  every element that occurs again later (\<open>remdups\<close>) and reversing back gives the
  same list.
\<close>

lemma new_Set_rev_remdups: "new_Set xs = rev (remdups (rev xs))"
proof (induction xs rule: rev_induct)
  case Nil
  show ?case by (simp add: new_Set_def)
next
  case (snoc x xs)
  then show ?case by (simp add: new_Set_def set_add_def)
qed

section \<open>Properties of the backend order\<close>

lemma fetch_available: "''fetch'' \<in> set (availableScrapers e)"
  by (simp add: availableScrapers_def baseScrapers_def configured_def)

lemma fetch_in_order: "''fetch'' \<in> set (getScrapingFallbackOrder e ds a b c)"
  using fetch_available [of e]
  by (simp add: getScrapingFallbackOrder_def Let_def set_new_Set)

lemma fallback_order_nonempty: "getScrapingFallbackOrder e ds a b c \<noteq> []"
  using fetch_in_order [of e ds a b c] by auto

lemma fallback_order_distinct: "distinct (getScrapingFallbackOrder e ds a b c)"
  by (simp add: getScrapingFallbackOrder_def Let_def distinct_new_Set)

text \<open>
  Every backend of the returned order is configured, the default scraper apart.
\<close>

lemma fallback_order_configured_apart_from_default:
  assumes "scraper \<in> set (getScrapingFallbackOrder e ds a b c)"
  shows "configured e scraper \<or> (truthy ds \<and> ds = Some scraper)"
  using assms
  by (cases ds)
     (auto simp: getScrapingFallbackOrder_def Let_def set_new_Set availableScrapers_def truthy_def
      split: if_splits)

text \<open>
  C9. Whatever the default scraper, the environment and the three option hints are,
  the order returned by \<open>getScrapingFallbackOrder\<close> is not empty and contains the
  plain-HTTP backend \<open>fetch\<close>.
\<close>

theorem fallback_order_has_fetch:
  "getScrapingFallbackOrder e defaultScraper isWaitPresent isScreenshotPresent isHeadersPresent \<noteq> []
   \<and> ''fetch'' \<in> set (getScrapingFallbackOrder e defaultScraper isWaitPresent isScreenshotPresent isHeadersPresent)"
  by (simp add: fallback_order_nonempty fetch_in_order)

text \<open>
  C1. The claim is that the returned order never holds a backend whose configuration
  is absent. With no backend configured and the per-domain default scraper
  \<open>fire-engine\<close>, the function returns \<open>fire-engine\<close> first although
  \<open>FIRE_ENGINE_BETA_URL\<close> is not set: the default scraper is put in front of the
  filtered order without passing the filter itself.
\<close>

theorem fallback_order_unconfigured_default:
  "getScrapingFallbackOrder no_env (Some ''fire-engine'') False False False
     = [''fire-engine'', ''fetch'']
   \<and> \<not> configured no_env ''fire-engine''"
  by (simp add: getScrapingFallbackOrder_def availableScrapers_def baseScrapers_def
      defaultOrder_def configured_def no_env_def truthy_def new_Set_def set_add_def)

section \<open>Properties of link extraction\<close>

lemma link_of_http:
  "startsWith h ''http://'' \<or> startsWith h ''https://'' \<Longrightarrow> link_of origin baseUrl (Some h) = Some h"
  by (cases h) (auto simp: link_of_def)

lemma link_of_slash: "startsWith h ''/'' \<Longrightarrow> link_of origin baseUrl (Some h) = Some (origin @ h)"
  by (cases h) (auto simp: link_of_def)

lemma link_of_mailto: "startsWith h ''mailto:'' \<Longrightarrow> link_of origin baseUrl (Some h) = Some h"
  by (cases h) (auto simp: link_of_def)

lemma link_of_fragment: "startsWith h ''#'' \<Longrightarrow> link_of origin baseUrl (Some h) = None"
  by (cases h) (auto simp: link_of_def)

lemma link_of_other:
  "h \<noteq> [] \<Longrightarrow> \<not> startsWith h ''http://'' \<Longrightarrow> \<not> startsWith h ''https://'' \<Longrightarrow> \<not> startsWith h ''/''
   \<Longrightarrow> \<not> startsWith h ''#'' \<Longrightarrow> \<not> startsWith h ''mailto:''
   \<Longrightarrow> link_of origin baseUrl (Some h) = Some (baseUrl @ ''/'' @ h)"
  by (simp add: link_of_def)

lemma link_of_dropped:
  assumes "is_fragment href \<or> \<not> truthy href"
  shows "link_of origin baseUrl href = None"
proof (cases href)
  case None
  then show ?thesis by (simp add: link_of_def)
next
  case (Some h)
  show ?thesis
  proof (cases "h = []")
    case True
    with Some show ?thesis by (simp add: link_of_def)
  next
    case False
    with Some assms have "startsWith h ''#''"
      by (simp add: is_fragment_def truthy_def)
    with Some show ?thesis by (simp add: link_of_fragment)
  qed
qed

lemma foldl_push_link:
  "foldl (push_link origin baseUrl) acc hrefs = acc @ List.map_filter (link_of origin baseUrl) hrefs"
  by (induction hrefs arbitrary: acc) (auto simp: push_link_def map_filter_simps split: option.splits)

lemma pushed_links:
  "foldl (push_link origin baseUrl) [] hrefs = List.map_filter (link_of origin baseUrl) hrefs"
  by (simp add: foldl_push_link)

lemma set_map_filter: "set (List.map_filter f xs) = {y. \<exists>x \<in> set xs. f x = Some y}"
  by (induction xs) (auto simp: map_filter_simps split: option.splits)

lemma set_links_of_anchors:
  "set (links_of_anchors origin baseUrl hrefs)
     = {l. \<exists>href \<in> set hrefs. link_of origin baseUrl href = Some l}"
  by (simp add: links_of_anchors_def set_new_Set pushed_links set_map_filter)

lemma map_filter_kept:
  "List.map_filter (link_of origin baseUrl) (filter (\<lambda>href. \<not> is_fragment href \<and> truthy href) hrefs)
     = List.map_filter (link_of origin baseUrl) hrefs"
proof (induction hrefs)
  case Nil
  show ?case by simp
next
  case (Cons a hrefs)
  show ?case
  proof (cases "is_fragment a \<or> \<not> truthy a")
    case True
    then show ?thesis using Cons link_of_dropped [OF True, of origin baseUrl]
      by (auto simp: map_filter_simps)
  next
    case False
    then show ?thesis using Cons by (simp add: map_filter_simps split: option.splits)
  qed
qed

text \<open>
  The branches of the callback, read off the code. When the base URL parses,
  \<open>extractLinks\<close> returns a list of links in which every href beginning with
  \<open>http://\<close> or \<open>https://\<close> stands verbatim, every href beginning with \<open>/\<close> stands
  behind the origin, every href beginning with \<open>mailto:\<close> stands verbatim, and every
  other href that is neither empty nor a fragment stands behind the base URL and a
  \<open>/\<close>. The prefixes are compared as they are written, in lower case. Anchors without
  an href, with an empty href and with a fragment-only href contribute nothing: the
  result is the same without them. Duplicates are removed and the first occurrence of
  each link keeps its place.
\<close>

lemma extractLinks_branches:
  assumes "origin_of baseUrl = Some origin"
  shows "\<exists>links. extractLinks anchors_of origin_of page baseUrl = Inr links
     \<and> (\<forall>h. Some h \<in> set (anchors_of page) \<and> (startsWith h ''http://'' \<or> startsWith h ''https://'')
            \<longrightarrow> h \<in> set links)
     \<and> (\<forall>h. Some h \<in> set (anchors_of page) \<and> startsWith h ''/'' \<longrightarrow> origin @ h \<in> set links)
     \<and> (\<forall>h. Some h \<in> set (anchors_of page) \<and> startsWith h ''mailto:'' \<longrightarrow> h \<in> set links)
     \<and> (\<forall>h. Some h \<in> set (anchors_of page) \<and> h \<noteq> [] \<and> \<not> startsWith h ''http://''
              \<and> \<not> startsWith h ''https://'' \<and> \<not> startsWith h ''/'' \<and> \<not> startsWith h ''#''
              \<and> \<not> startsWith h ''mailto:''
            \<longrightarrow> baseUrl @ ''/'' @ h \<in> set links)
     \<and> links = links_of_anchors origin baseUrl
                 (filter (\<lambda>href. \<not> is_fragment href \<and> truthy href) (anchors_of page))
     \<and> links = rev (remdups (rev (List.map_filter (link_of origin baseUrl) (anchors_of page))))"
proof -
  let ?links = "links_of_anchors origin baseUrl (anchors_of page)"
  have run: "extractLinks anchors_of origin_of page baseUrl = Inr ?links"
    using assms by (simp add: extractLinks_def)
  have http: "\<forall>h. Some h \<in> set (anchors_of page) \<and> (startsWith h ''http://'' \<or> startsWith h ''https://'')
            \<longrightarrow> h \<in> set ?links"
    unfolding set_links_of_anchors
    using link_of_http [of _ origin baseUrl] by blast
  have slash: "\<forall>h. Some h \<in> set (anchors_of page) \<and> startsWith h ''/'' \<longrightarrow> origin @ h \<in> set ?links"
    unfolding set_links_of_anchors
    using link_of_slash [of _ origin baseUrl] by blast
  have mailto: "\<forall>h. Some h \<in> set (anchors_of page) \<and> startsWith h ''mailto:'' \<longrightarrow> h \<in> set ?links"
    unfolding set_links_of_anchors
    using link_of_mailto [of _ origin baseUrl] by blast
  have other: "\<forall>h. Some h \<in> set (anchors_of page) \<and> h \<noteq> [] \<and> \<not> startsWith h ''http://''
              \<and> \<not> startsWith h ''https://'' \<and> \<not> startsWith h ''/'' \<and> \<not> startsWith h ''#''
              \<and> \<not> startsWith h ''mailto:''
            \<longrightarrow> baseUrl @ ''/'' @ h \<in> set ?links"
    unfolding set_links_of_anchors
    using link_of_other [of _ origin baseUrl] by blast
  have dropped: "?links = links_of_anchors origin baseUrl
                 (filter (\<lambda>href. \<not> is_fragment href \<and> truthy href) (anchors_of page))"
    by (simp add: links_of_anchors_def pushed_links map_filter_kept)
  have first: "?links = rev (remdups (rev (List.map_filter (link_of origin baseUrl) (anchors_of page))))"
    by (simp add: links_of_anchors_def pushed_links new_Set_rev_remdups)
  show ?thesis
    using run http slash mailto other dropped first by blast
qed

text \<open>
  C6. The claim is that an href of any scheme other than http(s) and mailto is dropped.
  The function has no test of the scheme. Its third branch, which its comment reserves
  for a relative URL not starting with \<open>/\<close>, takes every href that begins with neither
  \<open>#\<close> nor \<open>mailto:\<close>: on a page at \<open>https://a.com/p\<close> whose only anchor is
  \<open>tel:123\<close> the function returns the link \<open>https://a.com/p/tel:123\<close>. On the second
  page the lower-case http and mailto hrefs are kept verbatim, the href \<open>/x\<close> is
  resolved against the origin once, the fragment is dropped, and the \<open>tel:\<close> and
  \<open>javascript:\<close> hrefs and the absolute URL and the mailto link written in upper case
  come back glued behind the base URL.
\<close>

theorem extractLinks_glues_other_schemes:
  "extractLinks tel_anchors sample_origin ''<a href=tel:123>call</a>'' ''https://a.com/p''
     = Inr [''https://a.com/p/tel:123'']
   \<and> extractLinks sample_anchors sample_origin ''<html>'' ''https://a.com/p''
     = Inr [''https://a.com/p/tel:123'', ''https://a.com/x'', ''mailto:a@b.c'', ''http://q.org/'',
            ''https://a.com/p/javascript:void(0)'', ''https://a.com/p/HTTP://Q.org/x'',
            ''https://a.com/p/MAILTO:a@b.c'']"
  by (simp add: extractLinks_def sample_origin_def tel_anchors_def sample_anchors_def
      links_of_anchors_def push_link_def link_of_def new_Set_def set_add_def)

section \<open>Properties of the fallback loop\<close>

lemma trim_Nil: "trim [] = []"
  by (simp add: trim_def)

lemma long_enough_iff: "long_enough s = (100 \<le> length (trim s))"
  by (cases s) (auto simp: long_enough_def trim_Nil)

lemma trim_replicate: "\<not> is_space c \<Longrightarrow> trim (replicate n c) = replicate n c"
  by (cases n) (simp_all add: trim_def flip: replicate_Suc)

lemma record_attempt_text: "v_text (record_attempt v a) = a_text a"
  by (simp add: record_attempt_def Let_def split: option.splits)

lemma record_attempt_404:
  "a_pageStatusCode a = Some 404 \<Longrightarrow> v_pageStatusCode (record_attempt v a) = 404"
  by (simp add: record_attempt_def Let_def)

lemma record_attempt_no_status:
  "a_pageStatusCode a = None \<Longrightarrow>
     v_pageStatusCode (record_attempt v a) = v_pageStatusCode v
     \<and> v_pageError (record_attempt v a) = v_pageError v"
  by (simp add: record_attempt_def Let_def)

text \<open>
  A backend that returns an empty page and no status code (a timeout) gives an attempt
  with no text and no status code, when the custom-scraping hook asks for nothing and
  the cleaner and the converter make nothing of nothing.
\<close>

lemma timeout_gives_timed_out_attempt:
  assumes "run_method d e w url m = (Inr r, w1)"
    and "r_content r = []" and "r_pageStatusCode r = None"
    and "handleCustomScraping d [] url = None"
    and "parseMarkdown d (removeUnwantedElements d [] po) = []"
  shows "\<exists>a. attemptScraping d e w po url m = (Inr a, w1) \<and> timed_out (m, Inr a)"
  using assms
  by (simp add: attemptScraping_def run_custom_def timed_out_def Let_def)

text \<open>With a long enough \<open>existingHtml\<close> the first iteration leaves the loop at once.\<close>

lemma loop_bypass:
  "long_enough existingHtml \<Longrightarrow> scrapers \<noteq> [] \<Longrightarrow>
   fallback_loop d e po u existingHtml scrapers v w =
     (None, v\<lparr>v_text := parseMarkdown d (removeUnwantedElements d existingHtml po),
               v_html := removeUnwantedElements d existingHtml po\<rparr>, [], w)"
  by (cases scrapers) (simp_all add: Let_def)

text \<open>The backends called are an initial segment of the order, in the order's order.\<close>

lemma loop_calls_prefix:
  "fallback_loop d e po u existingHtml scrapers v w = (thrown, v', calls, w')
   \<Longrightarrow> \<exists>rest. scrapers = map fst calls @ rest"
proof (induction scrapers arbitrary: v w thrown v' calls w')
  case Nil
  then show ?case by simp
next
  case (Cons scraper rest)
  then show ?case
    by (auto simp: Let_def split: if_splits prod.splits sum.splits)
qed

text \<open>
  The calls returned are all the attempts made: the network state the loop leaves is
  the state after exactly these attempts, and each call holds what its attempt gave.
\<close>

lemma loop_calls_complete:
  "fallback_loop d e po u existingHtml scrapers v w = (thrown, v', calls, w')
   \<Longrightarrow> w' = after_attempts d e po u w (map fst calls)"
proof (induction scrapers arbitrary: v w thrown v' calls w')
  case Nil
  then show ?case by simp
next
  case (Cons scraper rest)
  then show ?case
    by (auto simp: Let_def split: if_splits prod.splits sum.splits)
qed

lemma loop_first_long:
  "fallback_loop d e po u existingHtml scrapers v w = (thrown, v', (scraper, Inr a) # others, w')
   \<Longrightarrow> long_enough (a_text a) \<Longrightarrow> others = []"
  by (cases scrapers)
     (auto simp: Let_def record_attempt_text split: if_splits prod.splits sum.splits)

lemma loop_404_last:
  "fallback_loop d e po u existingHtml scrapers v w = (thrown, v', calls, w')
   \<Longrightarrow> calls = before @ (scraper, Inr a) # after
   \<Longrightarrow> a_pageStatusCode a = Some 404 \<Longrightarrow> after = []"
proof (induction scrapers arbitrary: v w thrown v' calls w' before)
  case Nil
  then show ?case by simp
next
  case (Cons s rest)
  show ?case
  proof (cases "long_enough existingHtml")
    case True
    with Cons.prems show ?thesis by (simp add: Let_def)
  next
    case False
    obtain out w1 where att: "attemptScraping d e w po u s = (out, w1)"
      by (cases "attemptScraping d e w po u s")
    show ?thesis
    proof (cases out)
      case (Inl err)
      with Cons.prems False att show ?thesis
        by (auto simp: Cons_eq_append_conv)
    next
      case (Inr a0)
      let ?v = "record_attempt v a0"
      show ?thesis
      proof (cases "long_enough (v_text ?v) \<or> v_pageStatusCode ?v = 404")
        case True
        with Cons.prems(1) False att Inr have "calls = [(s, Inr a0)]"
          by (auto simp: Let_def split: if_splits)
        with Cons.prems(2) show ?thesis
          by (cases before) simp_all
      next
        case nobreak: False
        obtain t2 v2 c2 w2 where
          rec: "fallback_loop d e po u existingHtml rest ?v w1 = (t2, v2, c2, w2)"
          by (metis prod_cases4)
        with Cons.prems(1) False att Inr nobreak
        have calls: "calls = (s, Inr a0) # c2"
          by (auto simp: Let_def)
        show ?thesis
        proof (cases before)
          case Nil
          with calls Cons.prems(2) have "a0 = a" by simp
          with Cons.prems(3) nobreak show ?thesis
            by (simp add: record_attempt_404)
        next
          case (Cons b bs)
          with calls Cons.prems(2) have "c2 = bs @ (scraper, Inr a) # after" by simp
          from Cons.IH [OF rec this Cons.prems(3)] show ?thesis .
        qed
      qed
    qed
  qed
qed

text \<open>
  When every attempt returns no text and no status code, the loop tries the whole
  order and leaves the text, the status code and the page error as they were.
\<close>

lemma loop_all_timed_out:
  "fallback_loop d e po u existingHtml scrapers v w = (thrown, v', calls, w')
   \<Longrightarrow> \<not> long_enough existingHtml \<Longrightarrow> list_all timed_out calls \<Longrightarrow> v_text v = []
   \<Longrightarrow> v_pageStatusCode v \<noteq> 404
   \<Longrightarrow> thrown = None \<and> v_text v' = [] \<and> v_pageStatusCode v' = v_pageStatusCode v
       \<and> v_pageError v' = v_pageError v \<and> map fst calls = scrapers"
proof (induction scrapers arbitrary: v w thrown v' calls w')
  case Nil
  then show ?case by simp
next
  case (Cons s rest)
  obtain out w1 where att: "attemptScraping d e w po u s = (out, w1)"
    by (cases "attemptScraping d e w po u s")
  show ?case
  proof (cases out)
    case (Inl err)
    with Cons.prems(1,2) att have "calls = [(s, Inl err)]" by auto
    with Cons.prems(3) show ?thesis by (simp add: timed_out_def)
  next
    case (Inr a0)
    let ?v = "record_attempt v a0"
    obtain t2 v2 c2 w2 where
      rec: "fallback_loop d e po u existingHtml rest ?v w1 = (t2, v2, c2, w2)"
      by (metis prod_cases4)
    have first: "timed_out (s, Inr a0)"
      using Cons.prems att Inr by (auto simp: Let_def split: if_splits prod.splits)
    then have a0: "a_text a0 = []" "a_pageStatusCode a0 = None"
      by (simp_all add: timed_out_def)
    have notext: "v_text ?v = []" by (simp add: record_attempt_text a0)
    have same: "v_pageStatusCode ?v = v_pageStatusCode v" "v_pageError ?v = v_pageError v"
      using record_attempt_no_status [OF a0(2)] by simp_all
    have nolong: "\<not> long_enough (v_text ?v)" by (simp add: notext long_enough_def)
    have no404: "v_pageStatusCode ?v \<noteq> 404" using same Cons.prems(5) by simp
    from Cons.prems(1,2) att Inr nolong rec no404
    have res: "thrown = t2" "v' = v2" "calls = (s, Inr a0) # c2"
      by (auto simp: Let_def)
    with Cons.prems(3) have "list_all timed_out c2" by simp
    from Cons.IH [OF rec Cons.prems(2) this notext no404] res same show ?thesis by simp
  qed
qed

section \<open>Properties of scrapSingleUrl\<close>

lemma scrapersInOrder_nonempty: "scrapersInOrder_of d e po u \<noteq> []"
  by (simp add: scrapersInOrder_of_def fallback_order_nonempty)

lemma scrapersInOrder_distinct: "distinct (scrapersInOrder_of d e po u)"
  by (simp add: scrapersInOrder_of_def fallback_order_distinct)

lemma scrapSingleUrl_loop:
  assumes "scrapSingleUrl d e url po eo existingHtml w = (doc, calls, w')"
  shows "\<exists>thrown v.
           fallback_loop d e po (trim url) existingHtml (scrapersInOrder_of d e po (trim url)) init_vars w
             = (thrown, v, calls, w')
           \<and> doc = (case (case thrown of Some err \<Rightarrow> Inl err
                                      | None \<Rightarrow> build_document d po eo (trim url) v) of
                      Inl err \<Rightarrow> failure_document (trim url) v
                    | Inr doc' \<Rightarrow> doc')"
  using assms
  by (auto simp: scrapSingleUrl_def Let_def split: prod.splits sum.splits option.splits)

subsection \<open>The example runs\<close>

lemma trim_url_space: "trim '' https://a.com/p'' = ''https://a.com/p''"
  by (simp add: trim_def is_space_def)

lemma trim_url: "trim ''https://a.com/p'' = ''https://a.com/p''"
  by (simp add: trim_def is_space_def)

lemma attempt_fixed:
  assumes "m \<in> set baseScrapers" and "r_screenshot r = []"
  shows "attemptScraping (fixed_deps r) full_env w po u m
     = (Inr \<lparr>a_text = r_content r, a_html = r_content r, a_rawHtml = r_content r,
              a_screenshot = [], a_pageStatusCode = r_pageStatusCode r,
              a_pageError = (if truthy (r_pageError r) then r_pageError r else None)\<rparr>, Suc w)"
  using assms
  by (auto simp: attemptScraping_def run_method_def run_custom_def without_screenshot_def
      fixed_deps_def full_env_def truthy_def baseScrapers_def Let_def)

lemma attempts_of_examples:
  "m \<in> set baseScrapers \<Longrightarrow>
     attemptScraping (fixed_deps timeout_response) full_env w po u m = (Inr timeout_attempt, Suc w)"
  "m \<in> set baseScrapers \<Longrightarrow>
     attemptScraping (fixed_deps notfound_response) full_env w po u m = (Inr notfound_attempt, Suc w)"
  "m \<in> set baseScrapers \<Longrightarrow>
     attemptScraping (fixed_deps page_response) full_env w po u m = (Inr page_attempt, Suc w)"
  by (simp_all add: attempt_fixed timeout_response_def timeout_attempt_def notfound_response_def
      notfound_attempt_def page_response_def page_attempt_def truthy_def)

lemma fixed_deps_sel:
  "removeUnwantedElements (fixed_deps a) h po = h"
  "parseMarkdown (fixed_deps a) h = h"
  "url_origin (fixed_deps a) = sample_origin"
  "anchors (fixed_deps a) h = []"
  "extractMetadata (fixed_deps a) h u = []"
  by (simp_all add: fixed_deps_def)

lemma order_full:
  "scrapersInOrder_of (fixed_deps a) full_env default_pageOptions ''https://a.com/p''
     = [''scrapingBee'', ''fire-engine'', ''playwright'', ''scrapingBeeLoad'', ''fetch'']"
  by (simp add: scrapersInOrder_of_def defaultScraper_of_def fixed_deps_def full_env_def
      default_pageOptions_def isWaitPresent_of_def getScrapingFallbackOrder_def
      availableScrapers_def baseScrapers_def defaultOrder_def configured_def truthy_def
      new_Set_def set_add_def strip_www_def)

lemma long_page: "long_enough (replicate 100 (CHR ''a''))"
  by (simp add: long_enough_iff trim_replicate is_space_def)

lemma run_timeout:
  "scrapSingleUrl (fixed_deps timeout_response) full_env '' https://a.com/p'' default_pageOptions
      default_extractorOptions [] 0
   = (failure_document ''https://a.com/p'' init_vars, five_timeouts, 5)"
proof -
  have rec: "record_attempt init_vars timeout_attempt = init_vars"
    by (simp add: record_attempt_def timeout_attempt_def init_vars_def)
  have short: "\<not> long_enough []" "\<not> long_enough (v_text init_vars)"
    "v_pageStatusCode init_vars \<noteq> 404" "v_text init_vars = []"
    by (simp_all add: long_enough_def init_vars_def)
  show ?thesis
    by (simp add: scrapSingleUrl_def trim_url_space order_full fixed_deps_sel attempts_of_examples baseScrapers_def rec short
        build_document_def five_timeouts_def)
qed

lemma build_page:
  "v_text v = md \<Longrightarrow> md \<noteq> [] \<Longrightarrow> v_screenshot v = [] \<Longrightarrow>
   build_document (fixed_deps a) default_pageOptions default_extractorOptions ''https://a.com/p'' v
     = Inr (page_document md (v_pageStatusCode v) (v_pageError v))"
  by (simp add: build_document_def fixed_deps_sel extractLinks_def sample_origin_def
        links_of_anchors_def new_Set_def default_pageOptions_def default_extractorOptions_def
        page_document_def)

lemma run_notfound:
  "scrapSingleUrl (fixed_deps notfound_response) full_env ''https://a.com/p'' default_pageOptions
      default_extractorOptions [] 0
   = (page_document ''Not Found'' 404 (Some ''Not Found''),
      [(''scrapingBee'', Inr notfound_attempt)], 1)"
proof -
  let ?v = "\<lparr>v_text = ''Not Found'', v_html = ''Not Found'', v_rawHtml = ''Not Found'',
      v_screenshot = [], v_pageStatusCode = 404, v_pageError = Some ''Not Found''\<rparr>"
  have rec: "record_attempt init_vars notfound_attempt = ?v"
    by (simp add: record_attempt_def notfound_attempt_def init_vars_def truthy_def)
  have short: "\<not> long_enough []" "\<not> long_enough ''Not Found''"
    by (simp_all add: long_enough_def trim_def is_space_def)
  have loop: "fallback_loop (fixed_deps notfound_response) full_env default_pageOptions ''https://a.com/p'' []
       (scrapersInOrder_of (fixed_deps notfound_response) full_env default_pageOptions ''https://a.com/p'')
       init_vars 0 = (None, ?v, [(''scrapingBee'', Inr notfound_attempt)], Suc 0)"
    by (simp add: order_full fixed_deps_sel attempts_of_examples baseScrapers_def rec short)
  show ?thesis
    by (simp add: scrapSingleUrl_def Let_def trim_url loop build_page)
qed

lemma run_page:
  "scrapSingleUrl (fixed_deps page_response) full_env ''https://a.com/p'' default_pageOptions
      default_extractorOptions [] 0
   = (page_document (replicate 100 (CHR ''a'')) 200 None, [(''scrapingBee'', Inr page_attempt)], 1)"
proof -
  let ?v = "\<lparr>v_text = replicate 100 (CHR ''a''), v_html = replicate 100 (CHR ''a''),
      v_rawHtml = replicate 100 (CHR ''a''), v_screenshot = [],
      v_pageStatusCode = 200, v_pageError = None\<rparr>"
  have rec: "record_attempt init_vars page_attempt = ?v"
    by (simp add: record_attempt_def page_attempt_def init_vars_def truthy_def)
  have short: "\<not> long_enough []"
    by (simp_all add: long_enough_def)
  have loop: "fallback_loop (fixed_deps page_response) full_env default_pageOptions ''https://a.com/p'' []
       (scrapersInOrder_of (fixed_deps page_response) full_env default_pageOptions ''https://a.com/p'')
       init_vars 0 = (None, ?v, [(''scrapingBee'', Inr page_attempt)], Suc 0)"
    by (simp add: order_full fixed_deps_sel attempts_of_examples baseScrapers_def rec short long_page)
  show ?thesis
    by (simp add: scrapSingleUrl_def Let_def trim_url loop build_page)
qed



text \<open>
  The runs of the second example, in which the custom-scraping hook asks for Fire
  Engine, and the run on a URL that does not parse.
\<close>

lemma logging_deps_sel:
  "removeUnwantedElements logging_deps h po = h"
  "parseMarkdown logging_deps h = h"
  "url_origin logging_deps = sample_origin"
  "anchors logging_deps h = []"
  "extractMetadata logging_deps h u = []"
  by (simp_all add: logging_deps_def)

lemma order_wait:
  "scrapersInOrder_of logging_deps full_env wait_pageOptions ''https://a.com/p''
     = [''fire-engine'', ''playwright'', ''scrapingBee'', ''scrapingBeeLoad'', ''fetch'']"
  by (simp add: scrapersInOrder_of_def defaultScraper_of_def logging_deps_def full_env_def
      wait_pageOptions_def default_pageOptions_def isWaitPresent_of_def getScrapingFallbackOrder_def
      availableScrapers_def baseScrapers_def defaultOrder_def configured_def truthy_def
      new_Set_def set_add_def strip_www_def)

lemma order_logging:
  "scrapersInOrder_of logging_deps full_env default_pageOptions ''https://a.com/p''
     = [''scrapingBee'', ''fire-engine'', ''playwright'', ''scrapingBeeLoad'', ''fetch'']"
  by (simp add: scrapersInOrder_of_def defaultScraper_of_def logging_deps_def full_env_def
      default_pageOptions_def isWaitPresent_of_def getScrapingFallbackOrder_def
      availableScrapers_def baseScrapers_def defaultOrder_def configured_def truthy_def
      new_Set_def set_add_def strip_www_def)

lemma attempt_logging:
  "attemptScraping logging_deps full_env w po u ''fire-engine''
     = (Inr page_attempt, w @ [''fire-engine'', ''fire-engine''])"
  "attemptScraping logging_deps full_env w po u ''scrapingBee''
     = (Inr page_attempt, w @ [''scrapingBee'', ''fire-engine''])"
  by (simp_all add: attemptScraping_def run_method_def run_custom_def without_screenshot_def
      logging_deps_def full_env_def truthy_def Let_def page_response_def page_attempt_def)

lemma build_page_logging:
  "v_text v = md \<Longrightarrow> md \<noteq> [] \<Longrightarrow> v_screenshot v = [] \<Longrightarrow>
   build_document logging_deps po default_extractorOptions ''https://a.com/p'' v
     = Inr ((page_document md (v_pageStatusCode v) (v_pageError v))
             \<lparr>html := (if includeHtml po then Some (v_html v) else None),
              rawHtml := (if includeRawHtml po then Some (v_rawHtml v) else None)\<rparr>)"
  by (simp add: build_document_def logging_deps_sel extractLinks_def sample_origin_def
        links_of_anchors_def new_Set_def default_extractorOptions_def
        page_document_def)

lemma run_hook:
  "scrapSingleUrl logging_deps full_env ''https://a.com/p'' wait_pageOptions
      default_extractorOptions [] []
   = (page_document (replicate 100 (CHR ''a'')) 200 None, [(''fire-engine'', Inr page_attempt)],
      [''fire-engine'', ''fire-engine''])"
proof -
  let ?v = "\<lparr>v_text = replicate 100 (CHR ''a''), v_html = replicate 100 (CHR ''a''),
      v_rawHtml = replicate 100 (CHR ''a''), v_screenshot = [],
      v_pageStatusCode = 200, v_pageError = None\<rparr>"
  have rec: "record_attempt init_vars page_attempt = ?v"
    by (simp add: record_attempt_def page_attempt_def init_vars_def truthy_def)
  have short: "\<not> long_enough []"
    by (simp_all add: long_enough_def)
  have loop: "fallback_loop logging_deps full_env wait_pageOptions ''https://a.com/p'' []
       (scrapersInOrder_of logging_deps full_env wait_pageOptions ''https://a.com/p'')
       init_vars [] = (None, ?v, [(''fire-engine'', Inr page_attempt)], [''fire-engine'', ''fire-engine''])"
    by (simp add: order_wait logging_deps_sel attempt_logging rec short long_page)
  have opts: "includeHtml wait_pageOptions = False" "includeRawHtml wait_pageOptions = False"
    by (simp_all add: wait_pageOptions_def default_pageOptions_def)
  show ?thesis
    by (simp add: scrapSingleUrl_def Let_def trim_url loop build_page_logging opts page_document_def)
qed

lemma run_hook_default:
  "scrapSingleUrl logging_deps full_env ''https://a.com/p'' default_pageOptions
      default_extractorOptions [] []
   = (page_document (replicate 100 (CHR ''a'')) 200 None, [(''scrapingBee'', Inr page_attempt)],
      [''scrapingBee'', ''fire-engine''])"
proof -
  let ?v = "\<lparr>v_text = replicate 100 (CHR ''a''), v_html = replicate 100 (CHR ''a''),
      v_rawHtml = replicate 100 (CHR ''a''), v_screenshot = [],
      v_pageStatusCode = 200, v_pageError = None\<rparr>"
  have rec: "record_attempt init_vars page_attempt = ?v"
    by (simp add: record_attempt_def page_attempt_def init_vars_def truthy_def)
  have short: "\<not> long_enough []"
    by (simp_all add: long_enough_def)
  have loop: "fallback_loop logging_deps full_env default_pageOptions ''https://a.com/p'' []
       (scrapersInOrder_of logging_deps full_env default_pageOptions ''https://a.com/p'')
       init_vars [] = (None, ?v, [(''scrapingBee'', Inr page_attempt)], [''scrapingBee'', ''fire-engine''])"
    by (simp add: order_logging logging_deps_sel attempt_logging rec short long_page)
  have opts: "includeHtml default_pageOptions = False" "includeRawHtml default_pageOptions = False"
    by (simp_all add: default_pageOptions_def)
  show ?thesis
    by (simp add: scrapSingleUrl_def Let_def trim_url loop build_page_logging opts page_document_def)
qed




subsection \<open>Total failure\<close>

text \<open>
  C2, as the code has it. In a fetch that calls backends and in which every call
  returns no text and no status code, \<open>scrapSingleUrl\<close> has tried every backend of the
  order and returns (by its \<open>catch\<close> block) a document with empty content whose
  \<open>sourceURL\<close> is the trimmed input URL, whose \<open>pageStatusCode\<close> is the initial 200
  and whose \<open>pageError\<close> is undefined: the error message of an attempt is kept only
  when the attempt carries a status code of 400 or more.
\<close>

theorem all_backends_time_out:
  assumes run: "scrapSingleUrl d e url po eo existingHtml w = (doc, calls, w')"
    and some: "calls \<noteq> []"
    and timeouts: "list_all timed_out calls"
  shows "content doc = [] \<and> sourceURL (metadata doc) = Some (trim url)
         \<and> pageError (metadata doc) = None \<and> pageStatusCode (metadata doc) = Some 200
         \<and> map fst calls = scrapersInOrder_of d e po (trim url)"
proof -
  from scrapSingleUrl_loop [OF run] obtain thrown v where
    loop: "fallback_loop d e po (trim url) existingHtml (scrapersInOrder_of d e po (trim url)) init_vars w
             = (thrown, v, calls, w')"
    and doc: "doc = (case (case thrown of Some err \<Rightarrow> Inl err
                                      | None \<Rightarrow> build_document d po eo (trim url) v) of
                      Inl err \<Rightarrow> failure_document (trim url) v
                    | Inr doc' \<Rightarrow> doc')"
    by blast
  have nobypass: "\<not> long_enough existingHtml"
  proof
    assume lng: "long_enough existingHtml"
    from loop_bypass [where d = d and e = e and po = po and u = "trim url" and v = init_vars and w = w
        and scrapers = "scrapersInOrder_of d e po (trim url)", OF lng scrapersInOrder_nonempty] loop
    have "calls = []" by simp
    with some show False by simp
  qed
  from loop_all_timed_out [OF loop nobypass timeouts]
  have v: "thrown = None" "v_text v = []" "v_pageStatusCode v = 200" "v_pageError v = None"
    and all: "map fst calls = scrapersInOrder_of d e po (trim url)"
    by (simp_all add: init_vars_def)
  from doc v have "doc = failure_document (trim url) v"
    by (simp add: build_document_def)
  with v all show ?thesis by (simp add: failure_document_def)
qed

theorem all_backends_time_out_witness:
  "scrapSingleUrl (fixed_deps timeout_response) full_env '' https://a.com/p'' default_pageOptions
      default_extractorOptions [] 0
     = (failure_document ''https://a.com/p'' init_vars, five_timeouts, 5)
   \<and> five_timeouts \<noteq> [] \<and> list_all timed_out five_timeouts
   \<and> content (failure_document ''https://a.com/p'' init_vars) = []
   \<and> sourceURL (metadata (failure_document ''https://a.com/p'' init_vars)) = Some ''https://a.com/p''
   \<and> pageError (metadata (failure_document ''https://a.com/p'' init_vars)) = None
   \<and> pageStatusCode (metadata (failure_document ''https://a.com/p'' init_vars)) = Some 200
   \<and> map fst five_timeouts
       = [''scrapingBee'', ''fire-engine'', ''playwright'', ''scrapingBeeLoad'', ''fetch'']"
proof -
  have some: "five_timeouts \<noteq> []"
    by (simp add: five_timeouts_def)
  have timeouts: "list_all timed_out five_timeouts"
    by (simp add: five_timeouts_def timed_out_def timeout_attempt_def)
  from all_backends_time_out [OF run_timeout some timeouts] run_timeout some timeouts
  show ?thesis
    by (simp add: trim_url_space order_full)
qed

text \<open>
  The claim C2 as the specification states it asks for a non-empty \<open>pageError\<close> and
  for the input URL as \<open>sourceURL\<close>. With every backend configured and every backend
  timing out (no text, no status code, the error message \<open>Request timed out\<close>), the
  fetch of \<open>" https://a.com/p"\<close> returns a document whose \<open>pageError\<close> is undefined and
  whose \<open>sourceURL\<close> is the URL without the leading space.
\<close>

theorem timeouts_leave_pageError_undefined:
  "fst (snd (scrapSingleUrl (fixed_deps timeout_response) full_env '' https://a.com/p''
       default_pageOptions default_extractorOptions [] 0)) = five_timeouts
   \<and> list_all timed_out five_timeouts
   \<and> a_pageError timeout_attempt = Some ''Request timed out''
   \<and> pageError (metadata (fst (scrapSingleUrl (fixed_deps timeout_response) full_env
       '' https://a.com/p'' default_pageOptions default_extractorOptions [] 0))) = None
   \<and> sourceURL (metadata (fst (scrapSingleUrl (fixed_deps timeout_response) full_env
       '' https://a.com/p'' default_pageOptions default_extractorOptions [] 0)))
       = Some ''https://a.com/p''"
proof -
  have timeouts: "list_all timed_out five_timeouts"
    by (simp add: five_timeouts_def timed_out_def timeout_attempt_def)
  have msg: "a_pageError timeout_attempt = Some ''Request timed out''"
    by (simp add: timeout_attempt_def)
  from timeouts msg show ?thesis
    by (simp add: run_timeout failure_document_def init_vars_def)
qed

subsection \<open>Not found\<close>

text \<open>
  C3. In every fetch, an attempt that reports the status code 404 is the last attempt
  of the fetch, whatever text it returned; the network is left as the attempts up to
  and including it leave it.
\<close>

theorem not_found_stops_fallback:
  assumes run: "scrapSingleUrl d e url po eo existingHtml w = (doc, calls, w')"
    and i: "i < length calls"
    and att: "snd (calls ! i) = Inr a"
    and status: "a_pageStatusCode a = Some 404"
  shows "Suc i = length calls \<and> w' = after_attempts d e po (trim url) w (map fst calls)"
proof -
  from scrapSingleUrl_loop [OF run] obtain thrown v where
    loop: "fallback_loop d e po (trim url) existingHtml (scrapersInOrder_of d e po (trim url)) init_vars w
             = (thrown, v, calls, w')"
    by blast
  from i att have "calls = take i calls @ (fst (calls ! i), Inr a) # drop (Suc i) calls"
    by (metis id_take_nth_drop prod.collapse)
  from loop_404_last [OF loop this status] have "drop (Suc i) calls = []" .
  with i loop_calls_complete [OF loop] show ?thesis by simp
qed

theorem not_found_stops_fallback_witness:
  "scrapSingleUrl (fixed_deps notfound_response) full_env ''https://a.com/p'' default_pageOptions
      default_extractorOptions [] 0
     = (page_document ''Not Found'' 404 (Some ''Not Found''),
        [(''scrapingBee'', Inr notfound_attempt)], 1)
   \<and> a_pageStatusCode notfound_attempt = Some 404
   \<and> Suc 0 = length [(''scrapingBee'', Inr notfound_attempt :: js_error + attempt)]"
proof -
  have status: "a_pageStatusCode notfound_attempt = Some 404"
    by (simp add: notfound_attempt_def)
  have i: "0 < length [(''scrapingBee'', Inr notfound_attempt :: js_error + attempt)]" by simp
  have att: "snd ([(''scrapingBee'', Inr notfound_attempt :: js_error + attempt)] ! 0)
      = Inr notfound_attempt" by simp
  from not_found_stops_fallback [OF run_notfound i att status] run_notfound status
  show ?thesis by simp
qed

subsection \<open>Short circuit\<close>

text \<open>
  C4, as the code has it. In every fetch the loop attempts no backend of the order more
  than once, and when the first attempt returns a text whose trimmed length is at least
  100, it is the only attempt; the network is left as the attempts made leave it. An
  attempt is one run of \<open>attemptScraping\<close> by the loop. The request that the
  custom-scraping hook may make inside an attempt, to Fire Engine or for a PDF, is not
  an attempt of the loop and is not counted.
\<close>

theorem first_success_short_circuits:
  assumes run: "scrapSingleUrl d e url po eo existingHtml w = (doc, calls, w')"
  shows "distinct (map fst calls)
         \<and> (\<forall>scraper a others. calls = (scraper, Inr a) # others \<and> 100 \<le> length (trim (a_text a))
               \<longrightarrow> calls = [(scraper, Inr a)])
         \<and> w' = after_attempts d e po (trim url) w (map fst calls)"
proof -
  from scrapSingleUrl_loop [OF run] obtain thrown v where
    loop: "fallback_loop d e po (trim url) existingHtml (scrapersInOrder_of d e po (trim url)) init_vars w
             = (thrown, v, calls, w')"
    by blast
  from loop_calls_prefix [OF loop] obtain rest where
    "scrapersInOrder_of d e po (trim url) = map fst calls @ rest" by blast
  with scrapersInOrder_distinct [of d e po "trim url"] have once: "distinct (map fst calls)"
    by simp
  have "others = []" if "calls = (scraper, Inr a) # others" "100 \<le> length (trim (a_text a))"
    for scraper a others
    using loop_first_long [of d e po "trim url" existingHtml _ init_vars w thrown v scraper a others w']
      loop that by (simp add: long_enough_iff)
  with once loop_calls_complete [OF loop] show ?thesis by blast
qed

theorem first_success_short_circuits_witness:
  "scrapSingleUrl (fixed_deps page_response) full_env ''https://a.com/p'' default_pageOptions
      default_extractorOptions [] 0
     = (page_document (replicate 100 (CHR ''a'')) 200 None, [(''scrapingBee'', Inr page_attempt)], 1)
   \<and> 100 \<le> length (trim (a_text page_attempt))
   \<and> distinct (map fst [(''scrapingBee'', Inr page_attempt :: js_error + attempt)])"
proof -
  have long: "100 \<le> length (trim (a_text page_attempt))"
    using long_page by (simp add: long_enough_iff page_attempt_def)
  from first_success_short_circuits [OF run_page]
  have "distinct (map fst [(''scrapingBee'', Inr page_attempt :: js_error + attempt)])"
    by (rule conjunct1)
  with run_page long show ?thesis by (intro conjI)
qed

text \<open>
  The claim as worded, of backends invoked, fails where the custom-scraping hook asks
  for Fire Engine. With \<open>waitFor\<close> set the first backend of the order is Fire Engine; it
  returns a page of 100 characters, and the one attempt of the fetch sends two requests
  to Fire Engine, the backend's and the hook's. With the default options the first
  backend is ScrapingBee; it returns a page of 100 characters, and the same attempt
  then sends a request to Fire Engine, the next backend of the order.
\<close>

theorem hook_requests_fire_engine_again:
  "scrapSingleUrl logging_deps full_env ''https://a.com/p'' wait_pageOptions
      default_extractorOptions [] []
     = (page_document (replicate 100 (CHR ''a'')) 200 None, [(''fire-engine'', Inr page_attempt)],
        [''fire-engine'', ''fire-engine''])
   \<and> scrapSingleUrl logging_deps full_env ''https://a.com/p'' default_pageOptions
      default_extractorOptions [] []
     = (page_document (replicate 100 (CHR ''a'')) 200 None, [(''scrapingBee'', Inr page_attempt)],
        [''scrapingBee'', ''fire-engine''])
   \<and> 100 \<le> length (trim (a_text page_attempt))
   \<and> scrapersInOrder_of logging_deps full_env default_pageOptions ''https://a.com/p''
     = [''scrapingBee'', ''fire-engine'', ''playwright'', ''scrapingBeeLoad'', ''fetch'']"
proof -
  have long: "100 \<le> length (trim (a_text page_attempt))"
    using long_page by (simp add: long_enough_iff page_attempt_def)
  with run_hook run_hook_default order_logging show ?thesis by (intro conjI)
qed

subsection \<open>Content supplied by the crawler\<close>




section \<open>The Document constructor\<close>

text \<open>
  C10. The constructor of \<open>Document\<close> throws exactly when the content of its argument
  is absent or empty; a document it returns has the argument's content, which is not
  empty; and the failure document of \<open>scrapSingleUrl\<close>, whose content is empty, is
  never a result of the constructor.
\<close>

theorem Document_constructor_content:
  "((\<exists>err. Document_new now data = Inl err) = (d_content data = None \<or> d_content data = Some []))
   \<and> (\<forall>doc. Document_new now data = Inr doc
          \<longrightarrow> content doc \<noteq> [] \<and> d_content data = Some (content doc))
   \<and> content (failure_document urlToScrap v) = []
   \<and> Document_new now data \<noteq> Inr (failure_document urlToScrap v)"
proof -
  have throws: "(\<exists>err. Document_new now data = Inl err)
      = (d_content data = None \<or> d_content data = Some [])"
    by (cases "d_content data") (auto simp: Document_new_def truthy_def)
  have built: "\<forall>doc. Document_new now data = Inr doc
          \<longrightarrow> content doc \<noteq> [] \<and> d_content data = Some (content doc)"
    by (cases "d_content data") (auto simp: Document_new_def truthy_def split: if_splits)
  have empty: "content (failure_document urlToScrap v) = []"
    by (simp add: failure_document_def)
  from built empty have "Document_new now data \<noteq> Inr (failure_document urlToScrap v)"
    by auto
  with throws built empty show ?thesis by blast
qed

theorem Document_constructor_content_witness:
  "Document_new 7 sample_data = Inr sample_document
   \<and> content sample_document \<noteq> [] \<and> d_content sample_data = Some (content sample_document)
   \<and> Document_new 7 (sample_data\<lparr>d_content := Some []\<rparr>) = Inl (Error ''Missing required fields'')
   \<and> Document_new 7 (sample_data\<lparr>d_content := None\<rparr>) = Inl (Error ''Missing required fields'')"
proof -
  have made: "Document_new 7 sample_data = Inr sample_document"
    by (simp add: Document_new_def sample_data_def sample_document_def truthy_def)
  from Document_constructor_content [of 7 sample_data] made
  have kept: "content sample_document \<noteq> [] \<and> d_content sample_data = Some (content sample_document)"
    by blast
  have "Document_new 7 (sample_data\<lparr>d_content := Some []\<rparr>) = Inl (Error ''Missing required fields'')"
    "Document_new 7 (sample_data\<lparr>d_content := None\<rparr>) = Inl (Error ''Missing required fields'')"
    by (simp_all add: Document_new_def truthy_def)
  with made kept show ?thesis by (intro conjI) auto
qed

section \<open>Properties of sitemap traversal\<close>

text \<open>A result does not depend on the fuel, once the fuel suffices.\<close>

lemma more_fuel:
  "getLinksFromSitemap wb m fuel sitemapUrl allUrls = Some r
     \<longrightarrow> getLinksFromSitemap wb m (Suc fuel) sitemapUrl allUrls = Some r"
  "sitemap_children wb m fuel entries allUrls = Some r
     \<longrightarrow> sitemap_children wb m (Suc fuel) entries allUrls = Some r"
proof (induction wb m fuel sitemapUrl allUrls and wb m fuel entries allUrls
    arbitrary: r and r rule: getLinksFromSitemap_sitemap_children.induct)
  case (1 wb m sitemapUrl allUrls)
  then show ?case by simp
next
  case (2 wb m fuel sitemapUrl allUrls)
  then show ?case by (auto split: sum.splits option.splits)
next
  case (3 wb m fuel allUrls)
  then show ?case by simp
next
  case (4 wb m fuel sitemap rest allUrls)
  then show ?case by (auto split: option.splits list.splits)
qed











section \<open>Properties of cancellation\<close>

lemma no_record_no_data:
  "(jobId, team) \<notin> set rows \<Longrightarrow> filter (\<lambda>row. fst row = jobId \<and> snd row = team) rows = []"
  by (auto simp: filter_empty_conv)

lemma cancel_without_record_keeps_state:
  assumes "(jobId, team_id auth) \<notin> set (stored_rows (supabase_service s))"
  shows "snd (crawlCancelController moveToFailed auth jobId s) = s"
proof (cases "supabase_service s")
  case NotConfigured
  then show ?thesis
    by (simp add: crawlCancelController_def select_job_team_def split: option.splits)
next
  case (Client err rows)
  with assms have "filter (\<lambda>row. fst row = jobId \<and> snd row = team_id auth) rows = []"
    by (simp add: stored_rows_def no_record_no_data)
  with Client show ?thesis
    by (simp add: crawlCancelController_def select_job_team_def split: option.splits)
qed

lemma cancel_without_record_403:
  assumes "(jobId, team_id auth) \<notin> set (stored_rows (supabase_service s))"
    and "success auth" and "jobs s jobId = Some job" and "query_succeeds (supabase_service s)"
  shows "fst (crawlCancelController moveToFailed auth jobId s)
         = \<lparr>status_code = 403, body = ErrorBody (Some ''Unauthorized'')\<rparr>"
proof (cases "supabase_service s")
  case NotConfigured
  with assms(4) show ?thesis by (simp add: query_succeeds_def)
next
  case (Client err rows)
  with assms(4) have err: "err = None" by (simp add: query_succeeds_def)
  from Client assms(1)
  have "filter (\<lambda>row. fst row = jobId \<and> snd row = team_id auth) rows = []"
    by (simp add: stored_rows_def no_record_no_data)
  with Client err assms(2,3) show ?thesis
    by (simp add: crawlCancelController_def select_job_team_def)
qed

lemma cancel_query_fails_500:
  assumes "success auth" and "jobs s jobId = Some job" and "\<not> query_succeeds (supabase_service s)"
  shows "status_code (fst (crawlCancelController moveToFailed auth jobId s)) = 500"
proof (cases "supabase_service s")
  case NotConfigured
  with assms(1,2) show ?thesis
    by (simp add: crawlCancelController_def select_job_team_def)
next
  case (Client err rows)
  with assms(3) obtain msg where "err = Some msg" by (auto simp: query_succeeds_def)
  with Client assms(1,2) show ?thesis
    by (simp add: crawlCancelController_def select_job_team_def)
qed

text \<open>
  C8, as the code has it. When no stored record associates the job with the caller's
  team, the controller leaves the state as it was in every case: no billing call is
  made and no job changes. When moreover the request is authenticated, the job exists
  and the query on \<open>bulljobs_teams\<close> succeeds, the controller answers 403
  \<open>Unauthorized\<close>. (When the query does not succeed the answer is 500, see
  \<open>cancel_query_fails_500\<close>.)
\<close>

theorem cancel_foreign_job_unauthorized:
  assumes "(jobId, team_id auth) \<notin> set (stored_rows (supabase_service s))"
  shows "snd (crawlCancelController moveToFailed auth jobId s) = s
         \<and> (success auth \<and> jobs s jobId = Some job \<and> query_succeeds (supabase_service s)
            \<longrightarrow> fst (crawlCancelController moveToFailed auth jobId s)
                  = \<lparr>status_code = 403, body = ErrorBody (Some ''Unauthorized'')\<rparr>)"
  using cancel_without_record_keeps_state [OF assms, of moveToFailed]
    cancel_without_record_403 [OF assms, of job moveToFailed]
  by blast

theorem cancel_foreign_job_unauthorized_witness:
  "(''job-1'', team_id (auth_as ''team-b'')) \<notin> set (stored_rows (supabase_service sample_sys))
   \<and> success (auth_as ''team-b'') \<and> jobs sample_sys ''job-1'' = Some sample_job
   \<and> query_succeeds (supabase_service sample_sys)
   \<and> crawlCancelController mark_failed (auth_as ''team-b'') ''job-1'' sample_sys
         = (\<lparr>status_code = 403, body = ErrorBody (Some ''Unauthorized'')\<rparr>, sample_sys)"
proof -
  have r: "(''job-1'', team_id (auth_as ''team-b'')) \<notin> set (stored_rows (supabase_service sample_sys))"
    by (simp add: auth_as_def sample_sys_def stored_rows_def)
  have a: "success (auth_as ''team-b'')" by (simp add: auth_as_def)
  have j: "jobs sample_sys ''job-1'' = Some sample_job"
    by (simp add: sample_sys_def)
  have q: "query_succeeds (supabase_service sample_sys)"
    by (simp add: sample_sys_def query_succeeds_def)
  from cancel_foreign_job_unauthorized [OF r, of mark_failed sample_job] a j q
  have "crawlCancelController mark_failed (auth_as ''team-b'') ''job-1'' sample_sys
         = (\<lparr>status_code = 403, body = ErrorBody (Some ''Unauthorized'')\<rparr>, sample_sys)"
    by (simp add: prod_eq_iff)
  with r a j q show ?thesis by simp
qed

text \<open>
  The claim as worded fails where the ownership query does not succeed. On an
  installation without Supabase the job exists and no stored record associates it with
  the caller's team (there are no records), and the controller answers 500 with the
  proxy's message, not 403; so it does when the database answers the query with an
  error. In both runs the state is unchanged.
\<close>

theorem cancel_without_supabase_answers_500:
  "jobs unconfigured_sys ''job-1'' = Some sample_job
   \<and> stored_rows (supabase_service unconfigured_sys) = []
   \<and> crawlCancelController mark_failed (auth_as ''team-b'') ''job-1'' unconfigured_sys
       = (\<lparr>status_code = 500, body = ErrorBody (Some ''Supabase client is not configured.'')\<rparr>,
          unconfigured_sys)
   \<and> crawlCancelController mark_failed (auth_as ''team-b'') ''job-1'' unconfigured_sys
       \<noteq> (\<lparr>status_code = 403, body = ErrorBody (Some ''Unauthorized'')\<rparr>, unconfigured_sys)
   \<and> jobs failing_sys ''job-1'' = Some sample_job
   \<and> (''job-1'', ''team-b'') \<notin> set (stored_rows (supabase_service failing_sys))
   \<and> crawlCancelController mark_failed (auth_as ''team-b'') ''job-1'' failing_sys
       = (\<lparr>status_code = 500, body = ErrorBody (Some ''connection refused'')\<rparr>, failing_sys)"
  by (simp add: crawlCancelController_def select_job_team_def unconfigured_sys_def failing_sys_def
      sample_sys_def auth_as_def stored_rows_def message_def)

end
